theory Spec2Isabelle
  imports Main
begin

section \<open>Python library functions used by the downloader\<close>

text \<open>
  Strings are lists of 8-bit characters. The state files and URLs the program handles
  are ASCII in practice; Python's \<^verbatim>\<open>str.strip()\<close> removes the characters for which
  \<^verbatim>\<open>isspace()\<close> holds, which in the 8-bit range are the twelve listed below.
\<close>

definition py_isspace :: "char \<Rightarrow> bool" where
  "py_isspace c \<longleftrightarrow>
     c \<in> set [CHR 0x09, CHR 0x0A, CHR 0x0B, CHR 0x0C, CHR 0x0D, CHR 0x1C,
              CHR 0x1D, CHR 0x1E, CHR 0x1F, CHR 0x20, CHR 0x85, CHR 0xA0]"

text \<open>\<^verbatim>\<open>s.strip()\<close> and \<^verbatim>\<open>s.strip("/")\<close>: drop the matching characters at both ends.\<close>

definition strip_by :: "(char \<Rightarrow> bool) \<Rightarrow> string \<Rightarrow> string" where
  "strip_by p s = rev (dropWhile p (rev (dropWhile p s)))"

definition strip :: "string \<Rightarrow> string" where
  "strip s = strip_by py_isspace s"

definition strip_slash :: "string \<Rightarrow> string" where
  "strip_slash s = strip_by (\<lambda>c. c = CHR ''/'') s"

text \<open>
  \<^verbatim>\<open>s.split(d)\<close> for a one-character separator: the empty string gives one empty
  part, and every separator starts a new part.
\<close>

fun split :: "char \<Rightarrow> string \<Rightarrow> string list" where
  "split d [] = [[]]"
| "split d (c # cs) =
     (if c = d then [] # split d cs
      else (let ps = split d cs in (c # hd ps) # tl ps))"

text \<open>\<^verbatim>\<open>os.path.join(a, b)\<close> on a POSIX system, for two components.\<close>

definition path_join :: "string \<Rightarrow> string \<Rightarrow> string" where
  "path_join a b =
     (if b \<noteq> [] \<and> hd b = CHR ''/'' then b
      else if a = [] \<or> last a = CHR ''/'' then a @ b
      else a @ ''/'' @ b)"

text \<open>
  \<^verbatim>\<open>urlparse(url).path\<close> of the standard library. Leading control characters and
  spaces are dropped and every tab, carriage return and newline is removed. A scheme is
  split off at the first colon when the first character is a letter and everything
  before the colon is a scheme character; it is put in lower case. A network location
  follows a leading \<^verbatim>\<open>//\<close> and runs to the next \<^verbatim>\<open>/\<close>, \<^verbatim>\<open>?\<close> or \<^verbatim>\<open>#\<close>. The fragment and the
  query are cut off the rest, and for the schemes that have them also the parameters of
  the last segment. This is the path the library returns when it accepts the URL; it
  raises for some hosts written in brackets, which \<open>urlparse\<close> below adds.
  \<open>plain_netloc\<close> says that the network location has no bracket.
\<close>

definition is_alpha :: "char \<Rightarrow> bool" where
  "is_alpha c \<longleftrightarrow>
     (let n = (of_char c :: nat)
      in (of_char (CHR ''a'') \<le> n \<and> n \<le> of_char (CHR ''z''))
         \<or> (of_char (CHR ''A'') \<le> n \<and> n \<le> of_char (CHR ''Z'')))"

definition scheme_char :: "char \<Rightarrow> bool" where
  "scheme_char c \<longleftrightarrow>
     is_alpha c
     \<or> (of_char (CHR ''0'') \<le> (of_char c :: nat) \<and> (of_char c :: nat) \<le> of_char (CHR ''9''))
     \<or> c \<in> set ''+-.''"

definition lower :: "char \<Rightarrow> char" where
  "lower c =
     (if of_char (CHR ''A'') \<le> (of_char c :: nat) \<and> (of_char c :: nat) \<le> of_char (CHR ''Z'')
      then char_of (of_char c + (32 :: nat)) else c)"

definition clean_url :: "string \<Rightarrow> string" where
  "clean_url url =
     filter (\<lambda>c. c \<notin> set [CHR 0x09, CHR 0x0D, CHR 0x0A])
       (dropWhile (\<lambda>c. (of_char c :: nat) \<le> 32) url)"

definition split_scheme :: "string \<Rightarrow> string \<times> string" where
  "split_scheme url =
     (let pre = takeWhile (\<lambda>c. c \<noteq> CHR '':'') url
      in if length pre < length url \<and> pre \<noteq> [] \<and> is_alpha (hd url) \<and> list_all scheme_char pre
         then (map lower pre, drop (length pre + 1) url)
         else ([], url))"

definition netloc_of :: "string \<Rightarrow> string" where
  "netloc_of url =
     (let rest = snd (split_scheme (clean_url url))
      in if take 2 rest = ''//''
         then takeWhile (\<lambda>c. c \<notin> set ''/?#'') (drop 2 rest)
         else [])"

definition plain_netloc :: "string \<Rightarrow> bool" where
  "plain_netloc url \<longleftrightarrow> CHR ''['' \<notin> set (netloc_of url) \<and> CHR '']'' \<notin> set (netloc_of url)"

definition split_netloc :: "string \<Rightarrow> string" where
  "split_netloc url =
     (if take 2 url = ''//''
      then dropWhile (\<lambda>c. c \<notin> set ''/?#'') (drop 2 url)
      else url)"

definition uses_params :: "string list" where
  "uses_params = [[], ''ftp'', ''hdl'', ''prospero'', ''http'', ''imap'', ''https'', ''shttp'',
                  ''rtsp'', ''rtsps'', ''rtspu'', ''sip'', ''sips'', ''mms'', ''sftp'', ''tel'']"

definition split_params :: "string \<Rightarrow> string" where
  "split_params p =
     (let segs = split (CHR ''/'') p;
          lst = last segs
      in take (length p - length lst) p @ takeWhile (\<lambda>c. c \<noteq> CHR '';'') lst)"

definition urlparse_path :: "string \<Rightarrow> string" where
  "urlparse_path url =
     (let (scheme, rest) = split_scheme (clean_url url);
          p = takeWhile (\<lambda>c. c \<noteq> CHR ''?'')
                (takeWhile (\<lambda>c. c \<noteq> CHR ''#'') (split_netloc rest))
      in if scheme \<in> set uses_params then split_params p else p)"

section \<open>Exceptions, remote data and the world\<close>

text \<open>
  The exception classes the program distinguishes. \<^verbatim>\<open>HTTPError\<close> is what
  \<^verbatim>\<open>raise_for_status()\<close> raises; \<open>RequestException\<close> stands for every other exception of
  the HTTP library (connection failures, timeouts, broken streams, undecodable JSON);
  \<open>OSError\<close> is a failed local file operation; \<open>ValueError\<close> is the failed unpacking of a
  state record. \<open>KeyboardInterrupt\<close> is the one class that is not an \<^verbatim>\<open>Exception\<close>.
\<close>

datatype exn =
    HTTPError string
  | RequestException string
  | ValueError string
  | OSError string
  | KeyboardInterrupt

fun is_RequestException :: "exn \<Rightarrow> bool" where
  "is_RequestException (HTTPError m) = True"
| "is_RequestException (RequestException m) = True"
| "is_RequestException e = False"

fun is_HTTPError :: "exn \<Rightarrow> bool" where
  "is_HTTPError (HTTPError m) = True"
| "is_HTTPError e = False"

fun is_Exception :: "exn \<Rightarrow> bool" where
  "is_Exception KeyboardInterrupt = False"
| "is_Exception e = True"

text \<open>The JSON documents of the remote API, restricted to the fields the program reads.\<close>

record asset =
  asset_name :: string
  browser_download_url :: string

record release =
  tag_name :: string
  target_commitish :: string
  assets :: "asset list option"

record remote_commit =
  sha :: string

record commit_entry =
  message :: string
  author_name :: string
  author_date :: string

text \<open>
  One constructor for each logging call of the two scripts, carrying the values the
  message interpolates. The \<open>_for\<close> and \<open>_at\<close> variants are the multi-repository script's
  messages that add the repository or the path.
\<close>

datatype log_msg =
    Downloaded string
  | Download_failed string exn
  | Downloading_asset string
  | Release_notes_generated
  | Release_notes_generated_at string
  | Release_already_downloaded string
  | New_release_found string
  | Version_info_updated string
  | Release_http_error exn
  | Release_unknown_error exn
  | Master_up_to_date
  | New_commit_found
  | Master_version_updated string
  | Master_http_error exn
  | Master_unknown_error exn
  | Initial_download
  | Initial_download_for string
  | Daily_check_started
  | Daily_check_started_for string
  | Daily_check_finished
  | Daily_check_finished_for string
  | Invalid_github_url
  | Invalid_github_url_of string
  | Repositories_file_missing string
  | Repositories_loaded nat
  | Checker_running string
  | Checks_scheduled_for string string

fun is_error_msg :: "log_msg \<Rightarrow> bool" where
  "is_error_msg (Download_failed u e) = True"
| "is_error_msg (Release_http_error e) = True"
| "is_error_msg (Release_unknown_error e) = True"
| "is_error_msg (Master_http_error e) = True"
| "is_error_msg (Master_unknown_error e) = True"
| "is_error_msg Invalid_github_url = True"
| "is_error_msg (Invalid_github_url_of u) = True"
| "is_error_msg (Repositories_file_missing p) = True"
| "is_error_msg m = False"

text \<open>The scheduled task: the single-repository script's or the multi-repository one's.\<close>

datatype job =
    Daily_check
  | Daily_check_for string string string string string

datatype event =
    Request string
  | Log log_msg
  | Makedirs string
  | Schedule string job

text \<open>
  The world a sync runs in. \<open>files\<close> is the local file system (path to content);
  \<open>write_errors\<close> gives, for a path that cannot be opened for writing, the message of the
  \<open>OSError\<close>. The three \<open>http\<close> fields are what the remote answers to a GET of a URL:
  for a metadata URL the exception raised by the request, by \<^verbatim>\<open>raise_for_status()\<close> or by
  \<^verbatim>\<open>json()\<close>, or the decoded document; for a download the exception of the request or
  the chunks of the body, with the exception that broke the stream off, if any.
  \<open>bracketed_host_error\<close> is the verdict of the library's address check on a host written
  in brackets: the message of the \<open>ValueError\<close> for a host it refuses.
  \<open>events\<close> is the trace of what the program did, oldest first.
\<close>

record world =
  files :: "string \<rightharpoonup> string"
  write_errors :: "string \<rightharpoonup> string"
  http_release :: "string \<Rightarrow> exn + release"
  http_commit :: "string \<Rightarrow> exn + remote_commit"
  http_stream :: "string \<Rightarrow> exn + (string list \<times> exn option)"
  bracketed_host_error :: "string \<rightharpoonup> string"
  events :: "event list"

type_synonym 'a io = "world \<Rightarrow> (exn + 'a) \<times> world"

definition bind_io :: "'a io \<Rightarrow> ('a \<Rightarrow> 'b io) \<Rightarrow> 'b io" where
  "bind_io m f w = (case m w of (Inl e, w') \<Rightarrow> (Inl e, w') | (Inr x, w') \<Rightarrow> f x w')"

definition emit :: "event \<Rightarrow> world \<Rightarrow> world" where
  "emit ev w = w\<lparr>events := events w @ [ev]\<rparr>"

definition logging :: "log_msg \<Rightarrow> unit io" where
  "logging m w = (Inr (), emit (Log m) w)"

definition path_exists :: "string \<Rightarrow> world \<Rightarrow> bool" where
  "path_exists p w \<longleftrightarrow> files w p \<noteq> None"

text \<open>\<^verbatim>\<open>with open(path, 'w') as file: file.write(content)\<close>\<close>

definition write_file :: "string \<Rightarrow> string \<Rightarrow> unit io" where
  "write_file path content w =
     (case write_errors w path of
        Some m \<Rightarrow> (Inl (OSError m), w)
      | None \<Rightarrow> (Inr (), w\<lparr>files := (files w)(path \<mapsto> content)\<rparr>))"

text \<open>\<^verbatim>\<open>a, b = parts\<close>\<close>

definition unpack2 :: "string list \<Rightarrow> exn + (string \<times> string)" where
  "unpack2 parts =
     (case parts of
        [a, b] \<Rightarrow> Inr (a, b)
      | [] \<Rightarrow> Inl (ValueError ''not enough values to unpack (expected 2, got 0)'')
      | [a] \<Rightarrow> Inl (ValueError ''not enough values to unpack (expected 2, got 1)'')
      | _ \<Rightarrow> Inl (ValueError ''too many values to unpack (expected 2)''))"

text \<open>\<^verbatim>\<open>file.read().strip().split(',')\<close>, unpacked into two names.\<close>

definition read_state :: "string \<Rightarrow> exn + (string \<times> string)" where
  "read_state content = unpack2 (split (CHR '','') (strip content))"

text \<open>
  \<^verbatim>\<open>urlparse(url)\<close> raises \<open>ValueError\<close> when the network location has one bracket without
  the other, and when the host between the brackets is refused by the address check;
  otherwise it returns, and \<open>urlparse_path\<close> is the path of what it returns.
\<close>

definition bracketed_host :: "string \<Rightarrow> string" where
  "bracketed_host netloc =
     takeWhile (\<lambda>c. c \<noteq> CHR '']'') (drop 1 (dropWhile (\<lambda>c. c \<noteq> CHR ''['') netloc))"

definition urlparse :: "world \<Rightarrow> string \<Rightarrow> exn + string" where
  "urlparse w url =
     (let netloc = netloc_of url;
          has_open = CHR ''['' \<in> set netloc;
          has_close = CHR '']'' \<in> set netloc
      in if has_open \<noteq> has_close then Inl (ValueError ''Invalid IPv6 URL'')
         else if has_open then
           (case bracketed_host_error w (bracketed_host netloc) of
              Some m \<Rightarrow> Inl (ValueError m)
            | None \<Rightarrow> Inr (urlparse_path url))
         else Inr (urlparse_path url))"

section \<open>The multi-repository script (Experimantal/github\_downloader.py)\<close>

definition get_github_api_url :: "string \<Rightarrow> string \<Rightarrow> string" where
  "get_github_api_url owner repo = ''https://api.github.com/repos/'' @ owner @ ''/'' @ repo"

definition get_latest_release :: "string \<Rightarrow> release io" where
  "get_latest_release api_url w =
     (let url = api_url @ ''/releases/latest''
      in (http_release w url, emit (Request url) w))"

definition get_latest_commit :: "string \<Rightarrow> string \<Rightarrow> remote_commit io" where
  "get_latest_commit api_url branch w =
     (let url = api_url @ ''/commits/'' @ branch
      in (http_commit w url, emit (Request url) w))"

text \<open>
  \<open>download_file\<close>: only the HTTP library's exceptions are caught and logged; a failure to
  open the destination is raised to the caller. The destination is opened (and
  truncated) once the response has arrived with a good status.
\<close>

definition download_file :: "string \<Rightarrow> string \<Rightarrow> unit io" where
  "download_file url dest w =
     (let w1 = emit (Request url) w
      in case http_stream w url of
           Inl e \<Rightarrow>
             (if is_RequestException e then logging (Download_failed url e) w1
              else (Inl e, w1))
         | Inr (chunks, broken) \<Rightarrow>
             (case write_file dest (concat chunks) w1 of
                (Inl e, w2) \<Rightarrow> (Inl e, w2)
              | (Inr u, w2) \<Rightarrow>
                  (case broken of
                     None \<Rightarrow> logging (Downloaded dest) w2
                   | Some e \<Rightarrow>
                       (if is_RequestException e then logging (Download_failed url e) w2
                        else (Inl e, w2)))))"

fun download_assets :: "string \<Rightarrow> asset list \<Rightarrow> unit io" where
  "download_assets releases_dir [] w = (Inr (), w)"
| "download_assets releases_dir (a # as) w =
     (let asset_url = browser_download_url a;
          dest_path = path_join releases_dir (asset_name a)
      in bind_io (logging (Downloading_asset (asset_name a)))
           (\<lambda>_. bind_io (download_file asset_url dest_path)
             (\<lambda>_. download_assets releases_dir as)) w)"

definition download_release_assets :: "release \<Rightarrow> string \<Rightarrow> unit io" where
  "download_release_assets rel releases_dir =
     download_assets releases_dir (case assets rel of None \<Rightarrow> [] | Some as \<Rightarrow> as)"

definition release_note_line :: "commit_entry \<Rightarrow> string" where
  "release_note_line c =
     ''- '' @ hd (split (CHR 0x0A) (message c)) @ '' (von '' @ author_name c @ '' am ''
       @ author_date c @ '')'' @ [CHR 0x0A]"

definition release_notes_text :: "commit_entry list \<Rightarrow> string" where
  "release_notes_text commits =
     ''Release Notes'' @ [CHR 0x0A] @ ''============='' @ [CHR 0x0A, CHR 0x0A]
       @ concat (map release_note_line commits)"

definition generate_release_notes_at :: "commit_entry list \<Rightarrow> string \<Rightarrow> unit io" where
  "generate_release_notes_at commits release_notes_path =
     bind_io (write_file release_notes_path (release_notes_text commits))
       (\<lambda>_. logging (Release_notes_generated_at release_notes_path))"

text \<open>
  The body of the \<^verbatim>\<open>try\<close> block of \<open>check_and_download_release\<close>, then the function
  with its two handlers. The first component of the comparison is \<open>Inl\<close> when reading
  the state raised, and otherwise says whether the early \<^verbatim>\<open>return\<close> is taken.
\<close>

definition release_is_current :: "string \<Rightarrow> release \<Rightarrow> world \<Rightarrow> exn + bool" where
  "release_is_current version_file latest_release w =
     (case files w version_file of
        None \<Rightarrow> Inr False
      | Some content \<Rightarrow>
          (case read_state content of
             Inl e \<Rightarrow> Inl e
           | Inr (current_version, current_hash) \<Rightarrow>
               Inr (current_version = tag_name latest_release
                    \<and> current_hash = target_commitish latest_release)))"

definition release_try_multi ::
    "string \<Rightarrow> string \<Rightarrow> string \<Rightarrow> string \<Rightarrow> string \<Rightarrow> unit io" where
  "release_try_multi api_url repo_dir releases_dir version_file release_notes_file =
     bind_io (get_latest_release api_url) (\<lambda>latest_release w.
       let latest_version = tag_name latest_release;
           latest_commit_hash = target_commitish latest_release
       in case release_is_current version_file latest_release w of
            Inl e \<Rightarrow> (Inl e, w)
          | Inr True \<Rightarrow> logging (Release_already_downloaded latest_version) w
          | Inr False \<Rightarrow>
              bind_io (logging (New_release_found latest_version))
                (\<lambda>_. bind_io (download_release_assets latest_release releases_dir)
                  (\<lambda>_. bind_io (generate_release_notes_at [] release_notes_file)
                    (\<lambda>_. bind_io
                      (write_file version_file (latest_version @ '','' @ latest_commit_hash))
                      (\<lambda>_. logging (Version_info_updated latest_version))))) w)"

text \<open>
  \<^verbatim>\<open>except HTTPError\<close> first, then \<^verbatim>\<open>except Exception\<close>; anything else leaves the
  function as an exception.
\<close>

definition handle_errors :: "(exn \<Rightarrow> log_msg) \<Rightarrow> (exn \<Rightarrow> log_msg) \<Rightarrow> unit io \<Rightarrow> unit io" where
  "handle_errors on_http on_other body w =
     (case body w of
        (Inr u, w') \<Rightarrow> (Inr u, w')
      | (Inl e, w') \<Rightarrow>
          (if is_HTTPError e then logging (on_http e) w'
           else if is_Exception e then logging (on_other e) w'
           else (Inl e, w')))"

definition check_and_download_release_multi ::
    "string \<Rightarrow> string \<Rightarrow> string \<Rightarrow> string \<Rightarrow> string \<Rightarrow> unit io" where
  "check_and_download_release_multi api_url repo_dir releases_dir version_file release_notes_file =
     handle_errors Release_http_error Release_unknown_error
       (release_try_multi api_url repo_dir releases_dir version_file release_notes_file)"

text \<open>
  \<open>parse_github_url\<close> returns the pair \<^verbatim>\<open>(None, None)\<close> for a path of fewer than two
  parts, and logs; it has no handler of its own, so a \<open>ValueError\<close> of \<open>urlparse\<close> leaves
  it. \<open>path_parts_of\<close> is the list of parts of a URL that \<open>urlparse\<close> accepts.
\<close>

definition path_parts_of :: "string \<Rightarrow> string list" where
  "path_parts_of url = split (CHR ''/'') (strip_slash (urlparse_path url))"

definition parse_github_url :: "string \<Rightarrow> (string option \<times> string option) io" where
  "parse_github_url repo_url w =
     (case urlparse w repo_url of
        Inl e \<Rightarrow> (Inl e, w)
      | Inr path \<Rightarrow>
          (let path_parts = split (CHR ''/'') (strip_slash path)
           in if length path_parts < 2
              then (Inr (None, None), emit (Log (Invalid_github_url_of repo_url)) w)
              else (Inr (Some (path_parts ! 0), Some (path_parts ! 1)), w)))"

text \<open>What an f-string prints for a value that is \<^verbatim>\<open>None\<close> or a string.\<close>

definition fstr :: "string option \<Rightarrow> string" where
  "fstr v = (case v of None \<Rightarrow> ''None'' | Some s \<Rightarrow> s)"

definition master_is_current :: "string \<Rightarrow> string \<Rightarrow> world \<Rightarrow> exn + bool" where
  "master_is_current version_file_master latest_commit_hash w =
     (case files w version_file_master of
        None \<Rightarrow> Inr False
      | Some content \<Rightarrow>
          (case read_state content of
             Inl e \<Rightarrow> Inl e
           | Inr (_, current_hash) \<Rightarrow> Inr (current_hash = latest_commit_hash)))"

text \<open>
  The archive URL of the multi-repository script: \<open>parse_github_url\<close> is called twice, on
  the API URL, and the two components are formatted into the URL.
\<close>

definition master_zip_url_multi :: "string \<Rightarrow> string \<Rightarrow> string io" where
  "master_zip_url_multi api_url branch =
     bind_io (parse_github_url api_url) (\<lambda>p1.
       bind_io (parse_github_url api_url) (\<lambda>p2 w.
         (Inr (''https://github.com/'' @ fstr (fst p1) @ ''/'' @ fstr (snd p2)
                 @ ''/archive/refs/heads/'' @ branch @ ''.zip''), w)))"

definition master_try_multi :: "string \<Rightarrow> string \<Rightarrow> string \<Rightarrow> string \<Rightarrow> string \<Rightarrow> unit io" where
  "master_try_multi api_url repo_dir master_zip_path version_file_master branch =
     bind_io (get_latest_commit api_url branch) (\<lambda>latest_commit w.
       let latest_commit_hash = sha latest_commit
       in case master_is_current version_file_master latest_commit_hash w of
            Inl e \<Rightarrow> (Inl e, w)
          | Inr True \<Rightarrow> logging Master_up_to_date w
          | Inr False \<Rightarrow>
              bind_io (logging New_commit_found)
                (\<lambda>_. bind_io (master_zip_url_multi api_url branch)
                  (\<lambda>master_zip_url. bind_io (download_file master_zip_url master_zip_path)
                    (\<lambda>_. bind_io
                      (write_file version_file_master (branch @ '','' @ latest_commit_hash))
                      (\<lambda>_. logging (Master_version_updated latest_commit_hash))))) w)"

definition check_and_download_master_multi ::
    "string \<Rightarrow> string \<Rightarrow> string \<Rightarrow> string \<Rightarrow> string \<Rightarrow> unit io" where
  "check_and_download_master_multi api_url repo_dir master_zip_path version_file_master branch =
     handle_errors Master_http_error Master_unknown_error
       (master_try_multi api_url repo_dir master_zip_path version_file_master branch)"

definition setup_repository_dirs :: "string \<Rightarrow> string \<Rightarrow> string \<Rightarrow> world \<Rightarrow> (string \<times> string) \<times> world" where
  "setup_repository_dirs download_dir owner repo w =
     (let repo_dir = path_join download_dir repo;
          releases_dir = path_join repo_dir ''releases''
      in ((repo_dir, releases_dir), emit (Makedirs releases_dir) w))"

definition initial_download_multi ::
    "string \<Rightarrow> string \<Rightarrow> string \<Rightarrow> string \<Rightarrow> string \<Rightarrow> unit io" where
  "initial_download_multi owner repo api_url repo_dir releases_dir =
     (let version_file_release = path_join repo_dir ''version_info_release.txt'';
          version_file_master = path_join repo_dir ''version_info_master.txt'';
          release_notes_file = path_join repo_dir ''release_notes.txt'';
          master_zip_path = path_join repo_dir (repo @ ''_master.zip'')
      in bind_io (logging (Initial_download_for repo))
           (\<lambda>_. bind_io
             (check_and_download_master_multi api_url repo_dir master_zip_path
                version_file_master ''master'')
             (\<lambda>_. check_and_download_release_multi api_url repo_dir releases_dir
                     version_file_release release_notes_file)))"

definition daily_check_multi ::
    "string \<Rightarrow> string \<Rightarrow> string \<Rightarrow> string \<Rightarrow> string \<Rightarrow> unit io" where
  "daily_check_multi owner repo api_url repo_dir releases_dir =
     (let version_file_release = path_join repo_dir ''version_info_release.txt'';
          version_file_master = path_join repo_dir ''version_info_master.txt'';
          release_notes_file = path_join repo_dir ''release_notes.txt'';
          master_zip_path = path_join repo_dir (repo @ ''_master.zip'')
      in bind_io (logging (Daily_check_started_for repo))
           (\<lambda>_. bind_io
             (check_and_download_master_multi api_url repo_dir master_zip_path
                version_file_master ''master'')
             (\<lambda>_. bind_io
               (check_and_download_release_multi api_url repo_dir releases_dir
                  version_file_release release_notes_file)
               (\<lambda>_. logging (Daily_check_finished_for repo)))))"

text \<open>
  \<open>process_repository\<close>: \<^verbatim>\<open>if not owner or not repo: return\<close> leaves on \<^verbatim>\<open>None\<close> and on the
  empty string. The download directory is the script's global \<^verbatim>\<open>DOWNLOAD_DIR\<close>. Nothing
  here or in \<open>main\<close> catches an exception of \<open>parse_github_url\<close>.
\<close>

definition falsy :: "string option \<Rightarrow> bool" where
  "falsy v \<longleftrightarrow> v = None \<or> v = Some []"

definition process_repository :: "string \<Rightarrow> string \<Rightarrow> unit io" where
  "process_repository download_dir repo_url =
     bind_io (parse_github_url repo_url) (\<lambda>(owner_opt, repo_opt) w1.
         if falsy owner_opt \<or> falsy repo_opt then (Inr (), w1)
         else
           (let owner = the owner_opt; repo = the repo_opt;
                ((repo_dir, releases_dir), w2) = setup_repository_dirs download_dir owner repo w1;
                api_url = get_github_api_url owner repo;
                version_file_release = path_join repo_dir ''version_info_release.txt'';
                version_file_master = path_join repo_dir ''version_info_master.txt'';
                schedule_time = ''10:00''
            in bind_io
                 (if \<not> path_exists version_file_master w2 \<or> \<not> path_exists version_file_release w2
                  then initial_download_multi owner repo api_url repo_dir releases_dir
                  else (\<lambda>w. (Inr (), w)))
                 (\<lambda>_ w3. logging (Checks_scheduled_for schedule_time repo)
                     (emit (Schedule schedule_time
                        (Daily_check_for owner repo api_url repo_dir releases_dir)) w3)) w2))"

text \<open>
  The repositories file is read line by line in text mode: a line ends at a line feed,
  at a carriage return or at the two together.
\<close>

fun universal_newlines :: "string \<Rightarrow> string" where
  "universal_newlines [] = []"
| "universal_newlines [c] = [if c = CHR 0x0D then CHR 0x0A else c]"
| "universal_newlines (c # d # cs) =
     (if c = CHR 0x0D \<and> d = CHR 0x0A then CHR 0x0A # universal_newlines cs
      else if c = CHR 0x0D then CHR 0x0A # universal_newlines (d # cs)
      else c # universal_newlines (d # cs))"

definition load_repositories :: "string \<Rightarrow> world \<Rightarrow> string list \<times> world" where
  "load_repositories file_path w =
     (case files w file_path of
        None \<Rightarrow> ([], emit (Log (Repositories_file_missing file_path)) w)
      | Some content \<Rightarrow>
          (let urls = map strip (filter (\<lambda>line. strip line \<noteq> [])
                        (split (CHR 0x0A) (universal_newlines content)))
           in (urls, emit (Log (Repositories_loaded (length urls))) w)))"

fun process_all :: "string \<Rightarrow> string list \<Rightarrow> unit io" where
  "process_all download_dir [] w = (Inr (), w)"
| "process_all download_dir (repo_url # rest) w =
     bind_io (process_repository download_dir repo_url)
       (\<lambda>_. process_all download_dir rest) w"

text \<open>
  \<open>main\<close> up to the point where it enters the scheduler loop, which runs until the
  process is interrupted.
\<close>

definition main_multi :: "string \<Rightarrow> string \<Rightarrow> unit io" where
  "main_multi download_dir repositories_file w =
     (let (repositories, w1) = load_repositories repositories_file w
      in bind_io (process_all download_dir repositories)
           (\<lambda>_. logging (Checker_running ''10:00'')) w1)"

section \<open>The single-repository script (github\_downloader.py)\<close>

text \<open>
  The module-level globals the functions read: owner and repository from the URL given
  on the command line, and the download directory.
\<close>

record config =
  GITHUB_OWNER :: string
  GITHUB_REPO :: string
  DOWNLOAD_DIR :: string

definition VERSION_FILE_RELEASE :: string where
  "VERSION_FILE_RELEASE = ''version_info_release.txt''"

definition VERSION_FILE_MASTER :: string where
  "VERSION_FILE_MASTER = ''version_info_master.txt''"

definition RELEASE_NOTES_FILE :: string where
  "RELEASE_NOTES_FILE = ''release_notes.txt''"

definition GITHUB_API_URL :: "config \<Rightarrow> string" where
  "GITHUB_API_URL cfg = ''https://api.github.com/repos/'' @ GITHUB_OWNER cfg @ ''/'' @ GITHUB_REPO cfg"


definition generate_release_notes :: "commit_entry list \<Rightarrow> unit io" where
  "generate_release_notes commits =
     bind_io (write_file RELEASE_NOTES_FILE (release_notes_text commits))
       (\<lambda>_. logging Release_notes_generated)"

definition release_try :: "config \<Rightarrow> unit io" where
  "release_try cfg =
     bind_io (get_latest_release (GITHUB_API_URL cfg)) (\<lambda>latest_release w.
       let latest_version = tag_name latest_release;
           latest_commit_hash = target_commitish latest_release
       in case release_is_current VERSION_FILE_RELEASE latest_release w of
            Inl e \<Rightarrow> (Inl e, w)
          | Inr True \<Rightarrow> logging (Release_already_downloaded latest_version) w
          | Inr False \<Rightarrow>
              bind_io (logging (New_release_found latest_version))
                (\<lambda>_. bind_io (download_release_assets latest_release (DOWNLOAD_DIR cfg))
                  (\<lambda>_. bind_io (generate_release_notes [])
                    (\<lambda>_. bind_io
                      (write_file VERSION_FILE_RELEASE
                         (latest_version @ '','' @ latest_commit_hash))
                      (\<lambda>_. logging (Version_info_updated latest_version))))) w)"

definition check_and_download_release :: "config \<Rightarrow> unit io" where
  "check_and_download_release cfg =
     handle_errors Release_http_error Release_unknown_error (release_try cfg)"

definition master_zip_url :: "config \<Rightarrow> string" where
  "master_zip_url cfg =
     ''https://github.com/'' @ GITHUB_OWNER cfg @ ''/'' @ GITHUB_REPO cfg
       @ ''/archive/refs/heads/master.zip''"

definition master_dest_path :: "config \<Rightarrow> string" where
  "master_dest_path cfg = path_join (DOWNLOAD_DIR cfg) (GITHUB_REPO cfg @ ''_master.zip'')"

definition master_try :: "config \<Rightarrow> unit io" where
  "master_try cfg =
     bind_io (get_latest_commit (GITHUB_API_URL cfg) ''master'') (\<lambda>latest_commit w.
       let latest_commit_hash = sha latest_commit
       in case master_is_current VERSION_FILE_MASTER latest_commit_hash w of
            Inl e \<Rightarrow> (Inl e, w)
          | Inr True \<Rightarrow> logging Master_up_to_date w
          | Inr False \<Rightarrow>
              bind_io (logging New_commit_found)
                (\<lambda>_. bind_io (download_file (master_zip_url cfg) (master_dest_path cfg))
                  (\<lambda>_. bind_io
                    (write_file VERSION_FILE_MASTER (''master,'' @ latest_commit_hash))
                    (\<lambda>_. logging (Master_version_updated latest_commit_hash)))) w)"

definition check_and_download_master :: "config \<Rightarrow> unit io" where
  "check_and_download_master cfg =
     handle_errors Master_http_error Master_unknown_error (master_try cfg)"

definition initial_download :: "config \<Rightarrow> unit io" where
  "initial_download cfg =
     bind_io (logging Initial_download)
       (\<lambda>_. bind_io (check_and_download_master cfg)
         (\<lambda>_. check_and_download_release cfg))"

definition daily_check :: "config \<Rightarrow> unit io" where
  "daily_check cfg =
     bind_io (logging Daily_check_started)
       (\<lambda>_. bind_io (check_and_download_master cfg)
         (\<lambda>_. bind_io (check_and_download_release cfg)
           (\<lambda>_. logging Daily_check_finished)))"

text \<open>\<open>main\<close> up to the point where it enters the scheduler loop.\<close>

definition main :: "config \<Rightarrow> unit io" where
  "main cfg w =
     bind_io
       (if \<not> path_exists VERSION_FILE_MASTER w \<or> \<not> path_exists VERSION_FILE_RELEASE w
        then initial_download cfg
        else (\<lambda>w. (Inr (), w)))
       (\<lambda>_ w1. logging (Checker_running ''10:00'') (emit (Schedule ''10:00'' Daily_check) w1)) w"

section \<open>Conditions on the world and example worlds\<close>

text \<open>
  \<open>download_returns\<close> says that \<open>download_file url dest\<close> returns normally in the world:
  the request fails with an exception of the HTTP library, or the destination can be
  written and the stream ends well or breaks with such an exception.
  \<open>download_error\<close> is the exception that \<open>download_file\<close> logs, if any.
\<close>

definition download_returns :: "world \<Rightarrow> string \<Rightarrow> string \<Rightarrow> bool" where
  "download_returns w url dest =
     (case http_stream w url of
        Inl e \<Rightarrow> is_RequestException e
      | Inr (chunks, broken) \<Rightarrow>
          write_errors w dest = None
          \<and> (case broken of None \<Rightarrow> True | Some e \<Rightarrow> is_RequestException e))"

definition download_error :: "world \<Rightarrow> string \<Rightarrow> exn option" where
  "download_error w url =
     (case http_stream w url of Inl e \<Rightarrow> Some e | Inr (chunks, broken) \<Rightarrow> broken)"

text \<open>The events of one round of the asset loop when the download returns.\<close>

definition asset_trace :: "world \<Rightarrow> string \<Rightarrow> asset \<Rightarrow> event list" where
  "asset_trace w releases_dir a =
     [Log (Downloading_asset (asset_name a)),
      Request (browser_download_url a),
      Log (case download_error w (browser_download_url a) of
             None \<Rightarrow> Downloaded (path_join releases_dir (asset_name a))
           | Some e \<Rightarrow> Download_failed (browser_download_url a) e)]"

definition assets_of :: "release \<Rightarrow> asset list" where
  "assets_of rel = (case assets rel of None \<Rightarrow> [] | Some as \<Rightarrow> as)"

text \<open>
  An example: the repository \<open>O/R\<close> with release \<open>v1.0\<close> of two assets, the first of which
  cannot be fetched, and the commit \<open>s1\<close> on \<open>master\<close>; first with no local files, then
  with the two state files of a finished sync.
\<close>

definition example_release :: release where
  "example_release =
     \<lparr>tag_name = ''v1.0'', target_commitish = ''abc123'',
      assets = Some [\<lparr>asset_name = ''a.zip'', browser_download_url = ''https://dl/a.zip''\<rparr>,
                     \<lparr>asset_name = ''b.zip'', browser_download_url = ''https://dl/b.zip''\<rparr>]\<rparr>"

definition example_config :: config where
  "example_config = \<lparr>GITHUB_OWNER = ''O'', GITHUB_REPO = ''R'', DOWNLOAD_DIR = ''downloads''\<rparr>"

definition example_world :: world where
  "example_world =
     \<lparr>files = Map.empty,
      write_errors = Map.empty,
      http_release = (\<lambda>u. if u = ''https://api.github.com/repos/O/R/releases/latest''
                           then Inr example_release else Inl (HTTPError ''404'')),
      http_commit = (\<lambda>u. if u = ''https://api.github.com/repos/O/R/commits/master''
                          then Inr \<lparr>sha = ''s1''\<rparr> else Inl (HTTPError ''404'')),
      http_stream = (\<lambda>u. if u = ''https://dl/a.zip'' then Inl (RequestException ''timeout'')
                          else Inr ([''PK'', ''zip''], None)),
      bracketed_host_error = Map.empty,
      events = []\<rparr>"

definition example_synced_world :: world where
  "example_synced_world =
     example_world\<lparr>files := [''version_info_release.txt'' \<mapsto> ''v1.0,abc123'',
                              ''version_info_master.txt'' \<mapsto> ''master,s1'']\<rparr>"

text \<open>Two worlds with the same remote and the same unwritable paths.\<close>

definition same_env :: "world \<Rightarrow> world \<Rightarrow> bool" where
  "same_env w w' \<longleftrightarrow>
     write_errors w' = write_errors w \<and> http_release w' = http_release w
     \<and> http_commit w' = http_commit w \<and> http_stream w' = http_stream w"

definition example_stale_world :: world where
  "example_stale_world =
     example_world\<lparr>files := [''version_info_release.txt'' \<mapsto> ''v0.9,abc123'',
                             ''version_info_master.txt'' \<mapsto> ''master,s0'']\<rparr>"

text \<open>The URLs requested in a trace, in order.\<close>

fun requests_of :: "event list \<Rightarrow> string list" where
  "requests_of [] = []"
| "requests_of (Request u # es) = u # requests_of es"
| "requests_of (ev # es) = requests_of es"

text \<open>The same remote when no download can be fetched.\<close>

definition example_flaky_world :: world where
  "example_flaky_world =
     example_world\<lparr>http_stream := (\<lambda>u. Inl (RequestException ''connection reset''))\<rparr>"

text \<open>An action that only adds to the trace it finds.\<close>

definition appends :: "'a io \<Rightarrow> bool" where
  "appends m \<longleftrightarrow> (\<forall>w. \<exists>es. events (snd (m w)) = events w @ es)"

text \<open>The example with two empty state files.\<close>

definition example_malformed_world :: world where
  "example_malformed_world =
     example_world\<lparr>files := [''version_info_release.txt'' \<mapsto> [],
                             ''version_info_master.txt'' \<mapsto> []]\<rparr>"

text \<open>
  \<open>with_prefix es w\<close> is the world \<open>w\<close> with the events \<open>es\<close> put before its trace. An
  action is \<open>trace_blind\<close> when the trace it finds changes neither its result nor what it
  does: started with a longer history, it ends with that longer history.
\<close>

definition with_prefix :: "event list \<Rightarrow> world \<Rightarrow> world" where
  "with_prefix es w = w\<lparr>events := es @ events w\<rparr>"

definition trace_blind :: "(world \<Rightarrow> 'r \<times> world) \<Rightarrow> bool" where
  "trace_blind m \<longleftrightarrow>
     (\<forall>es w. m (with_prefix es w) = (fst (m w), with_prefix es (snd (m w))))"

text \<open>
  What the asset loop leaves in the file system when every download returns: each
  asset whose request is answered is stored at its destination, in the order of the
  release, whole or as far as the stream came.
\<close>

definition store_asset ::
    "world \<Rightarrow> string \<Rightarrow> (string \<rightharpoonup> string) \<Rightarrow> asset \<Rightarrow> (string \<rightharpoonup> string)" where
  "store_asset w releases_dir fs a =
     (case http_stream w (browser_download_url a) of
        Inl e \<Rightarrow> fs
      | Inr (chunks, broken) \<Rightarrow> fs(path_join releases_dir (asset_name a) \<mapsto> concat chunks))"


section \<open>Basic facts\<close>

lemma emit_simps [simp]:
  "files (emit ev w) = files w"
  "write_errors (emit ev w) = write_errors w"
  "http_release (emit ev w) = http_release w"
  "http_commit (emit ev w) = http_commit w"
  "http_stream (emit ev w) = http_stream w"
  "bracketed_host_error (emit ev w) = bracketed_host_error w"
  "events (emit ev w) = events w @ [ev]"
  by (simp_all add: emit_def)

lemma bind_io_Inr [simp]: "m w = (Inr x, w') \<Longrightarrow> bind_io m f w = f x w'"
  by (simp add: bind_io_def)

lemma bind_io_Inl [simp]: "m w = (Inl e, w') \<Longrightarrow> bind_io m f w = (Inl e, w')"
  by (simp add: bind_io_def)

lemma bind_io_logging [simp]: "bind_io (logging m) f w = f () (emit (Log m) w)"
  by (simp add: bind_io_def logging_def)

lemma handle_errors_Inr [simp]:
  "body w = (Inr u, w') \<Longrightarrow> handle_errors h1 h2 body w = (Inr u, w')"
  by (simp add: handle_errors_def)

lemma release_is_current_emit [simp]:
  "release_is_current vf rel (emit ev w) = release_is_current vf rel w"
  by (simp add: release_is_current_def)

lemma release_is_current_events [simp]:
  "release_is_current vf rel (w\<lparr>events := es\<rparr>) = release_is_current vf rel w"
  by (simp add: release_is_current_def)

lemma urlparse_plain: "plain_netloc url \<Longrightarrow> urlparse w url = Inr (urlparse_path url)"
  by (simp add: urlparse_def plain_netloc_def Let_def)

lemma parse_github_url_plain:
  assumes "plain_netloc u"
  shows "parse_github_url u w =
           (if length (path_parts_of u) < 2
            then (Inr (None, None), emit (Log (Invalid_github_url_of u)) w)
            else (Inr (Some (path_parts_of u ! 0), Some (path_parts_of u ! 1)), w))"
  using assms by (simp add: parse_github_url_def urlparse_plain path_parts_of_def Let_def)

lemma path_parts_example:
  "path_parts_of ''https://github.com/O/R'' = [''O'', ''R'']"
  "path_parts_of ''https://api.github.com/repos/O/R'' = [''repos'', ''O'', ''R'']"
  by (simp_all add: path_parts_of_def urlparse_path_def split_params_def split_netloc_def
        split_scheme_def clean_url_def uses_params_def lower_def scheme_char_def is_alpha_def
        strip_slash_def strip_by_def Let_def)

lemma path_parts_onlyowner: "path_parts_of ''https://github.com/onlyowner'' = [''onlyowner'']"
  by (simp add: path_parts_of_def urlparse_path_def split_params_def split_netloc_def
        split_scheme_def clean_url_def uses_params_def lower_def scheme_char_def is_alpha_def
        strip_slash_def strip_by_def Let_def)

lemma plain_netloc_example:
  "plain_netloc ''https://github.com/O/R''"
  "plain_netloc ''https://api.github.com/repos/O/R''"
  "plain_netloc ''https://github.com/onlyowner''"
  by (simp_all add: plain_netloc_def netloc_of_def split_scheme_def clean_url_def lower_def
        scheme_char_def is_alpha_def Let_def)

lemma parse_example:
  "parse_github_url ''https://github.com/O/R'' w = (Inr (Some ''O'', Some ''R''), w)"
  "parse_github_url ''https://api.github.com/repos/O/R'' w = (Inr (Some ''repos'', Some ''O''), w)"
  "parse_github_url ''https://github.com/onlyowner'' w =
     (Inr (None, None), emit (Log (Invalid_github_url_of ''https://github.com/onlyowner'')) w)"
  by (simp_all add: parse_github_url_plain plain_netloc_example path_parts_example
        path_parts_onlyowner)

lemmas run_defs =
  main_def initial_download_def check_and_download_master_def check_and_download_release_def
  master_try_def release_try_def master_zip_url_def master_dest_path_def
  generate_release_notes_def GITHUB_API_URL_def VERSION_FILE_MASTER_def
  VERSION_FILE_RELEASE_def RELEASE_NOTES_FILE_def
  process_repository_def parse_example
  setup_repository_dirs_def get_github_api_url_def path_join_def path_exists_def
  initial_download_multi_def check_and_download_master_multi_def
  check_and_download_release_multi_def master_try_multi_def release_try_multi_def
  master_zip_url_multi_def handle_errors_def get_latest_commit_def
  get_latest_release_def master_is_current_def release_is_current_def
  download_release_assets_def download_file_def write_file_def
  generate_release_notes_at_def fstr_def falsy_def
  bind_io_def logging_def emit_def Let_def

section \<open>Release Sync with an unchanged remote\<close>

lemma release_try_multi_current:
  assumes "http_release w (api_url @ ''/releases/latest'') = Inr rel"
    and "release_is_current version_file rel w = Inr True"
  shows "release_try_multi api_url repo_dir releases_dir version_file notes w =
           (Inr (), w\<lparr>events := events w @ [Request (api_url @ ''/releases/latest''),
                                             Log (Release_already_downloaded (tag_name rel))]\<rparr>)"
  using assms
  by (simp add: release_try_multi_def get_latest_release_def bind_io_def logging_def emit_def)

lemma release_try_current:
  assumes "http_release w (GITHUB_API_URL cfg @ ''/releases/latest'') = Inr rel"
    and "release_is_current VERSION_FILE_RELEASE rel w = Inr True"
  shows "release_try cfg w =
           (Inr (), w\<lparr>events := events w @ [Request (GITHUB_API_URL cfg @ ''/releases/latest''),
                                             Log (Release_already_downloaded (tag_name rel))]\<rparr>)"
  using assms
  by (simp add: release_try_def get_latest_release_def bind_io_def logging_def emit_def)

text \<open>
  C1. When the release state file exists and the pair read from it is the pair of the
  fetched release, Release Sync returns after the metadata request alone: the world is
  the one before with the request and the message "already downloaded" added to the
  trace, so no asset is requested and no file is written. A second call does the same
  again. This holds for the multi-repository function and, at its paths, for the
  single-repository one.
\<close>

theorem release_sync_unchanged_is_idempotent:
  assumes stored: "files w version_file = Some content"
    and same: "read_state content = Inr (tag_name rel, target_commitish rel)"
    and fetched: "http_release w (api_url @ ''/releases/latest'') = Inr rel"
  shows "let note = [Request (api_url @ ''/releases/latest''),
                     Log (Release_already_downloaded (tag_name rel))];
             sync = check_and_download_release_multi api_url repo_dir releases_dir
                      version_file release_notes_file
         in sync w = (Inr (), w\<lparr>events := events w @ note\<rparr>)
            \<and> sync (snd (sync w)) = (Inr (), w\<lparr>events := events w @ note @ note\<rparr>)
            \<and> (api_url = GITHUB_API_URL cfg \<and> version_file = VERSION_FILE_RELEASE \<longrightarrow>
                 check_and_download_release cfg w = (Inr (), w\<lparr>events := events w @ note\<rparr>)
                 \<and> check_and_download_release cfg (snd (check_and_download_release cfg w))
                     = (Inr (), w\<lparr>events := events w @ note @ note\<rparr>))"
proof -
  have cur: "release_is_current version_file rel w' = Inr True" if "files w' = files w" for w'
    using stored same that by (simp add: release_is_current_def)
  have multi: "check_and_download_release_multi api_url repo_dir releases_dir
                 version_file release_notes_file w'
               = (Inr (), w'\<lparr>events := events w' @ [Request (api_url @ ''/releases/latest''),
                     Log (Release_already_downloaded (tag_name rel))]\<rparr>)"
    if "files w' = files w" "http_release w' = http_release w" for w'
    unfolding check_and_download_release_multi_def
    using release_try_multi_current [of w' api_url rel version_file] cur that fetched by simp
  have single: "check_and_download_release cfg w'
               = (Inr (), w'\<lparr>events := events w' @ [Request (api_url @ ''/releases/latest''),
                     Log (Release_already_downloaded (tag_name rel))]\<rparr>)"
    if "files w' = files w" "http_release w' = http_release w"
       "api_url = GITHUB_API_URL cfg" "version_file = VERSION_FILE_RELEASE" for w'
    unfolding check_and_download_release_def
    using release_try_current [of w' cfg rel] cur that fetched by simp
  show ?thesis
    using multi [of w] multi [of "w\<lparr>events := events w @ [Request (api_url @ ''/releases/latest''),
                     Log (Release_already_downloaded (tag_name rel))]\<rparr>"]
      single [of w] single [of "w\<lparr>events := events w @ [Request (api_url @ ''/releases/latest''),
                     Log (Release_already_downloaded (tag_name rel))]\<rparr>"]
    by (simp add: Let_def)
qed

lemma read_state_example: "read_state ''v1.0,abc123'' = Inr (''v1.0'', ''abc123'')"
  by (simp add: read_state_def strip_def strip_by_def py_isspace_def unpack2_def)

theorem release_sync_unchanged_is_idempotent_witness:
  "files example_synced_world VERSION_FILE_RELEASE = Some ''v1.0,abc123''
   \<and> read_state ''v1.0,abc123'' = Inr (tag_name example_release, target_commitish example_release)
   \<and> check_and_download_release example_config example_synced_world
       = (Inr (), example_synced_world\<lparr>events :=
            [Request ''https://api.github.com/repos/O/R/releases/latest'',
             Log (Release_already_downloaded ''v1.0'')]\<rparr>)"
  using release_sync_unchanged_is_idempotent
    [where w = example_synced_world and version_file = VERSION_FILE_RELEASE
       and content = "''v1.0,abc123''" and rel = example_release
       and api_url = "GITHUB_API_URL example_config" and cfg = example_config]
  by (simp add: example_synced_world_def example_world_def example_release_def
        example_config_def VERSION_FILE_RELEASE_def GITHUB_API_URL_def read_state_example Let_def)

section \<open>What a download changes\<close>

lemma handle_errors_returns:
  "fst (body w) = Inr u \<Longrightarrow> handle_errors h1 h2 body w = body w"
  by (cases "body w") (simp add: handle_errors_def)

lemma write_file_env [simp]:
  "write_errors (snd (write_file p c w)) = write_errors w"
  "http_release (snd (write_file p c w)) = http_release w"
  "http_commit (snd (write_file p c w)) = http_commit w"
  "http_stream (snd (write_file p c w)) = http_stream w"
  "events (snd (write_file p c w)) = events w"
  by (simp_all add: write_file_def split: option.splits)

lemma write_file_ok:
  "write_errors w p = None \<Longrightarrow> write_file p c w = (Inr (), w\<lparr>files := (files w)(p \<mapsto> c)\<rparr>)"
  by (simp add: write_file_def)

lemma write_file_fails:
  "write_errors w p = Some m \<Longrightarrow> write_file p c w = (Inl (OSError m), w)"
  by (simp add: write_file_def)

lemma logging_simps [simp]:
  "fst (logging m w) = Inr ()"
  "snd (logging m w) = emit (Log m) w"
  by (simp_all add: logging_def)

lemma download_file_env [simp]:
  "write_errors (snd (download_file url dest w)) = write_errors w"
  "http_release (snd (download_file url dest w)) = http_release w"
  "http_commit (snd (download_file url dest w)) = http_commit w"
  "http_stream (snd (download_file url dest w)) = http_stream w"
  by (simp_all add: download_file_def write_file_def Let_def
        split: sum.splits prod.splits option.splits)

lemma download_file_returns:
  assumes "download_returns w url dest"
  shows "fst (download_file url dest w) = Inr ()"
    and "events (snd (download_file url dest w)) =
           events w @ [Request url,
             Log (case download_error w url of
                    None \<Rightarrow> Downloaded dest | Some e \<Rightarrow> Download_failed url e)]"
  using assms
  by (auto simp: download_file_def download_returns_def download_error_def write_file_def
        Let_def split: sum.splits prod.splits option.splits)

lemma download_file_raises:
  assumes "\<not> download_returns w url dest"
  shows "\<exists>e. fst (download_file url dest w) = Inl e"
  using assms
  by (auto simp: download_file_def download_returns_def write_file_def
        Let_def split: sum.splits prod.splits option.splits)

lemma download_returns_cong:
  "http_stream w' = http_stream w \<Longrightarrow> write_errors w' = write_errors w
     \<Longrightarrow> download_returns w' url dest = download_returns w url dest"
  by (auto simp: download_returns_def split: sum.splits prod.splits)

lemma asset_trace_cong:
  "http_stream w' = http_stream w \<Longrightarrow> asset_trace w' dir a = asset_trace w dir a"
  by (simp add: asset_trace_def download_error_def)

lemma bind_io_fst:
  "fst (m w) = Inr x \<Longrightarrow> bind_io m f w = f x (snd (m w))"
  by (cases "m w") (simp add: bind_io_def)

lemma bind_io_fst_Inl:
  "fst (m w) = Inl e \<Longrightarrow> bind_io m f w = (Inl e, snd (m w))"
  by (cases "m w") (simp add: bind_io_def)

lemma same_env_refl [simp]: "same_env w w"
  by (simp add: same_env_def)

lemma same_env_trans: "same_env w w1 \<Longrightarrow> same_env w1 w2 \<Longrightarrow> same_env w w2"
  by (simp add: same_env_def)

lemma same_env_emit [simp]: "same_env w (emit ev w)"
  by (simp add: same_env_def)

lemma same_env_download_file [simp]: "same_env w (snd (download_file url dest w))"
  by (simp add: same_env_def)

lemma same_env_write_file [simp]: "same_env w (snd (write_file p c w))"
  by (simp add: same_env_def)

lemma same_env_bind:
  assumes "\<And>w. same_env w (snd (m w))" and "\<And>x w. same_env w (snd (f x w))"
  shows "same_env w (snd (bind_io m f w))"
proof (cases "fst (m w)")
  case (Inl e)
  then show ?thesis using assms(1) [of w] by (simp add: bind_io_fst_Inl)
next
  case (Inr x)
  then show ?thesis
    using same_env_trans [OF assms(1) [of w] assms(2) [of "snd (m w)" x]]
    by (simp add: bind_io_fst)
qed

lemma same_env_logging [simp]: "same_env w (snd (logging m w))"
  by simp

lemma same_env_download_assets [simp]: "same_env w (snd (download_assets dir as w))"
proof (induction as arbitrary: w)
  case Nil
  show ?case by simp
next
  case (Cons a as)
  show ?case
    unfolding download_assets.simps Let_def
    by (intro same_env_bind same_env_logging same_env_download_file Cons.IH)
qed

lemma download_assets_env [simp]:
  "write_errors (snd (download_assets dir as w)) = write_errors w"
  "http_release (snd (download_assets dir as w)) = http_release w"
  "http_commit (snd (download_assets dir as w)) = http_commit w"
  "http_stream (snd (download_assets dir as w)) = http_stream w"
  using same_env_download_assets [of w dir as] by (simp_all add: same_env_def)

lemma download_assets_returns:
  assumes "\<forall>a \<in> set as. download_returns w (browser_download_url a) (path_join dir (asset_name a))"
  shows "fst (download_assets dir as w) = Inr ()
         \<and> events (snd (download_assets dir as w)) = events w @ concat (map (asset_trace w dir) as)"
  using assms
proof (induction as arbitrary: w)
  case Nil
  then show ?case by simp
next
  case (Cons a as)
  let ?w1 = "emit (Log (Downloading_asset (asset_name a))) w"
  let ?d = "download_file (browser_download_url a) (path_join dir (asset_name a)) ?w1"
  have ret: "download_returns ?w1 (browser_download_url a) (path_join dir (asset_name a))"
    using Cons.prems by (simp add: download_returns_cong [of ?w1 w])
  have d1: "fst ?d = Inr ()" by (rule download_file_returns(1) [OF ret])
  have d2: "events (snd ?d) = events w @ asset_trace w dir a"
    using download_file_returns(2) [OF ret]
    by (simp add: asset_trace_def download_error_def)
  have step: "download_assets dir (a # as) w = download_assets dir as (snd ?d)"
    using d1 by (simp add: Let_def bind_io_fst)
  have rest: "\<forall>b \<in> set as. download_returns (snd ?d) (browser_download_url b) (path_join dir (asset_name b))"
    using Cons.prems by (simp add: download_returns_cong [of "snd ?d" w])
  have tr: "map (asset_trace (snd ?d) dir) as = map (asset_trace w dir) as"
    by (simp add: asset_trace_cong [of "snd ?d" w])
  show ?case
    unfolding step using Cons.IH [OF rest] d2 tr by simp
qed

lemma download_file_files:
  "p \<noteq> dest \<Longrightarrow> files (snd (download_file url dest w)) p = files w p"
  by (simp add: download_file_def write_file_def logging_def Let_def
        split: sum.splits prod.splits option.splits)

lemma handle_errors_files [simp]:
  "files (snd (handle_errors h1 h2 body w)) = files (snd (body w))"
  by (cases "body w") (simp add: handle_errors_def logging_def split: sum.splits)

lemma store_asset_cong:
  "http_stream w' = http_stream w \<Longrightarrow> store_asset w' dir = store_asset w dir"
  by (intro ext) (simp add: store_asset_def)

lemma download_file_files_returns:
  assumes "download_returns w url dest"
  shows "files (snd (download_file url dest w)) =
           (case http_stream w url of
              Inl e \<Rightarrow> files w
            | Inr (chunks, broken) \<Rightarrow> (files w)(dest \<mapsto> concat chunks))"
  using assms
  by (auto simp: download_file_def download_returns_def write_file_def logging_def Let_def
        split: sum.splits prod.splits option.splits)

lemma download_assets_files:
  assumes "\<forall>a \<in> set as. download_returns w (browser_download_url a) (path_join dir (asset_name a))"
  shows "files (snd (download_assets dir as w)) = foldl (store_asset w dir) (files w) as"
  using assms
proof (induction as arbitrary: w)
  case Nil
  then show ?case by simp
next
  case (Cons a as)
  let ?w1 = "emit (Log (Downloading_asset (asset_name a))) w"
  let ?d = "download_file (browser_download_url a) (path_join dir (asset_name a)) ?w1"
  have ret: "download_returns ?w1 (browser_download_url a) (path_join dir (asset_name a))"
    using Cons.prems by (simp add: download_returns_cong [of ?w1 w])
  have d1: "fst ?d = Inr ()" by (rule download_file_returns(1) [OF ret])
  have d2: "files (snd ?d) = store_asset w dir (files w) a"
    using download_file_files_returns [OF ret]
    by (simp add: store_asset_def split: sum.splits prod.splits)
  have step: "download_assets dir (a # as) w = download_assets dir as (snd ?d)"
    using d1 by (simp add: Let_def bind_io_fst)
  have rest: "\<forall>b \<in> set as. download_returns (snd ?d) (browser_download_url b) (path_join dir (asset_name b))"
    using Cons.prems by (simp add: download_returns_cong [of "snd ?d" w])
  have sc: "store_asset (snd ?d) dir = store_asset w dir"
    by (rule store_asset_cong) simp
  show ?case
    unfolding step using Cons.IH [OF rest] d2 sc by simp
qed




section \<open>Release Sync with a new release\<close>

lemma generate_release_notes_ok:
  "write_errors w RELEASE_NOTES_FILE = None \<Longrightarrow>
     generate_release_notes commits w =
       (Inr (), emit (Log Release_notes_generated)
                  (w\<lparr>files := (files w)(RELEASE_NOTES_FILE \<mapsto> release_notes_text commits)\<rparr>))"
  by (simp add: generate_release_notes_def write_file_ok logging_def)

lemma generate_release_notes_at_ok:
  "write_errors w path = None \<Longrightarrow>
     generate_release_notes_at commits path w =
       (Inr (), emit (Log (Release_notes_generated_at path))
                  (w\<lparr>files := (files w)(path \<mapsto> release_notes_text commits)\<rparr>))"
  by (simp add: generate_release_notes_at_def write_file_ok logging_def)

lemma download_release_assets_returns:
  assumes "\<forall>a \<in> set (assets_of rel).
             download_returns w (browser_download_url a) (path_join dir (asset_name a))"
  shows "fst (download_release_assets rel dir w) = Inr ()"
    and "events (snd (download_release_assets rel dir w)) =
           events w @ concat (map (asset_trace w dir) (assets_of rel))"
    and "same_env w (snd (download_release_assets rel dir w))"
    and "files (snd (download_release_assets rel dir w)) =
           foldl (store_asset w dir) (files w) (assets_of rel)"
  using download_assets_returns [of "assets_of rel" w dir]
    download_assets_files [of "assets_of rel" w dir] assms
  by (simp_all add: download_release_assets_def assets_of_def)

lemma update_chain:
  assumes dl: "\<forall>a \<in> set (assets_of rel).
                 download_returns w (browser_download_url a) (path_join dir (asset_name a))"
    and wnotes: "write_errors w notes_path = None"
    and state: "write_errors w vf = None"
    and gen: "\<And>w'. write_errors w' notes_path = None \<Longrightarrow>
                gen w' = (Inr (), emit (Log nmsg) (w'\<lparr>files := (files w')(notes_path \<mapsto> ntext)\<rparr>))"
  shows "\<exists>w'. bind_io (logging (New_release_found v))
                (\<lambda>_. bind_io (download_release_assets rel dir)
                  (\<lambda>_. bind_io gen
                    (\<lambda>_. bind_io (write_file vf c)
                      (\<lambda>_. logging (Version_info_updated v))))) w = (Inr (), w')
              \<and> events w' =
                  events w @ [Log (New_release_found v)]
                    @ concat (map (asset_trace w dir) (assets_of rel))
                    @ [Log nmsg, Log (Version_info_updated v)]
              \<and> files w' vf = Some c
              \<and> same_env w w'
              \<and> files w' = (foldl (store_asset w dir) (files w) (assets_of rel))
                             (notes_path \<mapsto> ntext, vf \<mapsto> c)"
proof -
  let ?w1 = "emit (Log (New_release_found v)) w"
  let ?d = "download_release_assets rel dir ?w1"
  have dl1: "\<forall>a \<in> set (assets_of rel).
               download_returns ?w1 (browser_download_url a) (path_join dir (asset_name a))"
    using dl by (simp add: download_returns_cong [of ?w1 w])
  note d = download_release_assets_returns [OF dl1]
  have tr: "map (asset_trace ?w1 dir) (assets_of rel) = map (asset_trace w dir) (assets_of rel)"
    by (simp add: asset_trace_cong [of ?w1 w])
  have env2: "write_errors (snd ?d) = write_errors w" "http_stream (snd ?d) = http_stream w"
    "http_release (snd ?d) = http_release w" "http_commit (snd ?d) = http_commit w"
    using d(3) by (simp_all add: same_env_def)
  let ?w3 = "emit (Log nmsg) ((snd ?d)\<lparr>files := (files (snd ?d))(notes_path \<mapsto> ntext)\<rparr>)"
  let ?w5 = "emit (Log (Version_info_updated v)) (?w3\<lparr>files := (files ?w3)(vf \<mapsto> c)\<rparr>)"
  have g: "gen (snd ?d) = (Inr (), ?w3)"
    using gen [of "snd ?d"] wnotes env2 by simp
  have w3: "write_errors ?w3 vf = None"
    using state env2 by simp
  have eq: "bind_io (logging (New_release_found v))
                (\<lambda>_. bind_io (download_release_assets rel dir)
                  (\<lambda>_. bind_io gen
                    (\<lambda>_. bind_io (write_file vf c)
                      (\<lambda>_. logging (Version_info_updated v))))) w = (Inr (), ?w5)"
    using d(1) g w3
    by (simp add: bind_io_fst write_file_ok logging_def)
  have "events ?w5 = events w @ [Log (New_release_found v)]
                    @ concat (map (asset_trace w dir) (assets_of rel))
                    @ [Log nmsg, Log (Version_info_updated v)]"
    using d(2) tr by simp
  moreover have "files ?w5 vf = Some c" by simp
  moreover have "same_env w ?w5" using env2 by (simp add: same_env_def)
  moreover have "files ?w5 = (foldl (store_asset w dir) (files w) (assets_of rel))
                             (notes_path \<mapsto> ntext, vf \<mapsto> c)"
    using d(4) by (simp add: store_asset_cong [of ?w1 w])
  ultimately show ?thesis using eq by blast
qed

lemma release_try_proceeds:
  assumes fetched: "http_release w (GITHUB_API_URL cfg @ ''/releases/latest'') = Inr rel"
    and new: "release_is_current VERSION_FILE_RELEASE rel w = Inr False"
    and dl: "\<forall>a \<in> set (assets_of rel).
               download_returns w (browser_download_url a)
                 (path_join (DOWNLOAD_DIR cfg) (asset_name a))"
    and wnotes: "write_errors w RELEASE_NOTES_FILE = None"
    and state: "write_errors w VERSION_FILE_RELEASE = None"
  shows "\<exists>w'. release_try cfg w = (Inr (), w')
           \<and> events w' =
               events w @ [Request (GITHUB_API_URL cfg @ ''/releases/latest''),
                           Log (New_release_found (tag_name rel))]
                 @ concat (map (asset_trace w (DOWNLOAD_DIR cfg)) (assets_of rel))
                 @ [Log Release_notes_generated, Log (Version_info_updated (tag_name rel))]
           \<and> files w' VERSION_FILE_RELEASE = Some (tag_name rel @ '','' @ target_commitish rel)
           \<and> same_env w w'
           \<and> files w' = (foldl (store_asset w (DOWNLOAD_DIR cfg)) (files w) (assets_of rel))
                          (RELEASE_NOTES_FILE \<mapsto> release_notes_text [],
                           VERSION_FILE_RELEASE \<mapsto> tag_name rel @ '','' @ target_commitish rel)"
proof -
  let ?w0 = "emit (Request (GITHUB_API_URL cfg @ ''/releases/latest'')) w"
  have dl0: "\<forall>a \<in> set (assets_of rel).
               download_returns ?w0 (browser_download_url a)
                 (path_join (DOWNLOAD_DIR cfg) (asset_name a))"
    using dl by (simp add: download_returns_cong [of ?w0 w])
  have tr: "map (asset_trace ?w0 (DOWNLOAD_DIR cfg)) (assets_of rel)
              = map (asset_trace w (DOWNLOAD_DIR cfg)) (assets_of rel)"
    by (simp add: asset_trace_cong [of ?w0 w])
  have wnotes': "write_errors ?w0 RELEASE_NOTES_FILE = None"
    and state': "write_errors ?w0 VERSION_FILE_RELEASE = None"
    using wnotes state by simp_all
  have eq: "release_try cfg w =
              bind_io (logging (New_release_found (tag_name rel)))
                (\<lambda>_. bind_io (download_release_assets rel (DOWNLOAD_DIR cfg))
                  (\<lambda>_. bind_io (generate_release_notes [])
                    (\<lambda>_. bind_io
                      (write_file VERSION_FILE_RELEASE
                         (tag_name rel @ '','' @ target_commitish rel))
                      (\<lambda>_. logging (Version_info_updated (tag_name rel)))))) ?w0"
    using fetched new
    by (simp add: release_try_def get_latest_release_def bind_io_def Let_def)
  note ch = update_chain [where w = "?w0" and gen = "generate_release_notes []"
      and notes_path = RELEASE_NOTES_FILE and vf = VERSION_FILE_RELEASE
      and nmsg = Release_notes_generated and ntext = "release_notes_text []"
      and v = "tag_name rel" and c = "tag_name rel @ '','' @ target_commitish rel"]
  from ch [OF dl0 wnotes' state' generate_release_notes_ok]
  obtain w' where "release_try cfg w = (Inr (), w')"
    and "events w' = events ?w0 @ [Log (New_release_found (tag_name rel))]
           @ concat (map (asset_trace ?w0 (DOWNLOAD_DIR cfg)) (assets_of rel))
           @ [Log Release_notes_generated, Log (Version_info_updated (tag_name rel))]"
    and "files w' VERSION_FILE_RELEASE = Some (tag_name rel @ '','' @ target_commitish rel)"
    and "same_env ?w0 w'"
    and "files w' = (foldl (store_asset ?w0 (DOWNLOAD_DIR cfg)) (files ?w0) (assets_of rel))
                          (RELEASE_NOTES_FILE \<mapsto> release_notes_text [],
                           VERSION_FILE_RELEASE \<mapsto> tag_name rel @ '','' @ target_commitish rel)"
    unfolding eq by auto
  then show ?thesis using tr by (auto simp: same_env_def store_asset_cong [of ?w0 w])
qed

lemma release_try_multi_proceeds:
  assumes fetched: "http_release w (api_url @ ''/releases/latest'') = Inr rel"
    and new: "release_is_current version_file rel w = Inr False"
    and dl: "\<forall>a \<in> set (assets_of rel).
               download_returns w (browser_download_url a)
                 (path_join releases_dir (asset_name a))"
    and wnotes: "write_errors w release_notes_file = None"
    and state: "write_errors w version_file = None"
  shows "\<exists>w'. release_try_multi api_url repo_dir releases_dir version_file release_notes_file w
                = (Inr (), w')
           \<and> events w' =
               events w @ [Request (api_url @ ''/releases/latest''),
                           Log (New_release_found (tag_name rel))]
                 @ concat (map (asset_trace w releases_dir) (assets_of rel))
                 @ [Log (Release_notes_generated_at release_notes_file),
                    Log (Version_info_updated (tag_name rel))]
           \<and> files w' version_file = Some (tag_name rel @ '','' @ target_commitish rel)
           \<and> same_env w w'
           \<and> files w' = (foldl (store_asset w releases_dir) (files w) (assets_of rel))
                          (release_notes_file \<mapsto> release_notes_text [],
                           version_file \<mapsto> tag_name rel @ '','' @ target_commitish rel)"
proof -
  let ?w0 = "emit (Request (api_url @ ''/releases/latest'')) w"
  have dl0: "\<forall>a \<in> set (assets_of rel).
               download_returns ?w0 (browser_download_url a)
                 (path_join releases_dir (asset_name a))"
    using dl by (simp add: download_returns_cong [of ?w0 w])
  have tr: "map (asset_trace ?w0 releases_dir) (assets_of rel)
              = map (asset_trace w releases_dir) (assets_of rel)"
    by (simp add: asset_trace_cong [of ?w0 w])
  have wnotes': "write_errors ?w0 release_notes_file = None"
    and state': "write_errors ?w0 version_file = None"
    using wnotes state by simp_all
  have eq: "release_try_multi api_url repo_dir releases_dir version_file release_notes_file w =
              bind_io (logging (New_release_found (tag_name rel)))
                (\<lambda>_. bind_io (download_release_assets rel releases_dir)
                  (\<lambda>_. bind_io (generate_release_notes_at [] release_notes_file)
                    (\<lambda>_. bind_io
                      (write_file version_file
                         (tag_name rel @ '','' @ target_commitish rel))
                      (\<lambda>_. logging (Version_info_updated (tag_name rel)))))) ?w0"
    using fetched new
    by (simp add: release_try_multi_def get_latest_release_def bind_io_def Let_def)
  note ch = update_chain [where w = "?w0"
      and gen = "generate_release_notes_at [] release_notes_file"
      and notes_path = release_notes_file and vf = version_file
      and nmsg = "Release_notes_generated_at release_notes_file"
      and ntext = "release_notes_text []"
      and v = "tag_name rel" and c = "tag_name rel @ '','' @ target_commitish rel"]
  from ch [OF dl0 wnotes' state' generate_release_notes_at_ok]
  obtain w' where
      "release_try_multi api_url repo_dir releases_dir version_file release_notes_file w
         = (Inr (), w')"
    and "events w' = events ?w0 @ [Log (New_release_found (tag_name rel))]
           @ concat (map (asset_trace ?w0 releases_dir) (assets_of rel))
           @ [Log (Release_notes_generated_at release_notes_file),
              Log (Version_info_updated (tag_name rel))]"
    and "files w' version_file = Some (tag_name rel @ '','' @ target_commitish rel)"
    and "same_env ?w0 w'"
    and "files w' = (foldl (store_asset ?w0 releases_dir) (files ?w0) (assets_of rel))
                          (release_notes_file \<mapsto> release_notes_text [],
                           version_file \<mapsto> tag_name rel @ '','' @ target_commitish rel)"
    unfolding eq by auto
  then show ?thesis using tr by (auto simp: same_env_def store_asset_cong [of ?w0 w])
qed

lemma requests_of_append [simp]: "requests_of (xs @ ys) = requests_of xs @ requests_of ys"
  by (induction xs rule: requests_of.induct) simp_all

lemma requests_of_asset_traces [simp]:
  "requests_of (concat (map (asset_trace w dir) as)) = map browser_download_url as"
  by (induction as) (simp_all add: asset_trace_def)

lemma release_is_current_differs:
  assumes "files w vf = Some content" and "read_state content = Inr (t, h)"
    and "t \<noteq> tag_name rel \<or> h \<noteq> target_commitish rel"
  shows "release_is_current vf rel w = Inr False"
  using assms by (auto simp: release_is_current_def)

text \<open>
  C2. When the pair read from the release state file differs from the pair of the
  fetched release in the tag or in the commit, Release Sync takes the update path: it
  requests every asset of the release after the metadata, in order; the file system
  afterwards is the one before with every asset whose request was answered stored at
  its destination, the notes written and the state file holding the new pair. The
  downloads are assumed to return (a failed request is caught inside \<open>download_file\<close>)
  and the notes file and the state file to be writable. The statement is for the
  multi-repository function and, at its paths, for the single-repository one.
\<close>

theorem release_sync_changed_pair:
  assumes stored: "files w version_file = Some content"
    and parsed: "read_state content = Inr (t, h)"
    and fetched: "http_release w (api_url @ ''/releases/latest'') = Inr rel"
    and differs: "t \<noteq> tag_name rel \<or> h \<noteq> target_commitish rel"
    and dl: "\<forall>a \<in> set (assets_of rel).
               download_returns w (browser_download_url a)
                 (path_join releases_dir (asset_name a))"
    and wnotes: "write_errors w release_notes_file = None"
    and state: "write_errors w version_file = None"
  shows "(let r = check_and_download_release_multi api_url repo_dir releases_dir
                    version_file release_notes_file w
          in fst r = Inr ()
             \<and> requests_of (events (snd r)) =
                 requests_of (events w) @ (api_url @ ''/releases/latest'')
                   # map browser_download_url (assets_of rel)
             \<and> files (snd r) version_file
                 = Some (tag_name rel @ '','' @ target_commitish rel)
             \<and> files (snd r) =
                 (foldl (store_asset w releases_dir) (files w) (assets_of rel))
                   (release_notes_file \<mapsto> release_notes_text [],
                    version_file \<mapsto> tag_name rel @ '','' @ target_commitish rel))
         \<and> (api_url = GITHUB_API_URL cfg \<and> version_file = VERSION_FILE_RELEASE
              \<and> releases_dir = DOWNLOAD_DIR cfg \<and> release_notes_file = RELEASE_NOTES_FILE \<longrightarrow>
             (let r = check_and_download_release cfg w
              in fst r = Inr ()
                 \<and> requests_of (events (snd r)) =
                     requests_of (events w) @ (api_url @ ''/releases/latest'')
                       # map browser_download_url (assets_of rel)
                 \<and> files (snd r) version_file
                     = Some (tag_name rel @ '','' @ target_commitish rel)
                 \<and> files (snd r) =
                     (foldl (store_asset w releases_dir) (files w) (assets_of rel))
                       (release_notes_file \<mapsto> release_notes_text [],
                        version_file \<mapsto> tag_name rel @ '','' @ target_commitish rel)))"
proof -
  have new: "release_is_current version_file rel w = Inr False"
    using release_is_current_differs [OF stored parsed differs] .
  from release_try_multi_proceeds [OF fetched new dl wnotes state, of repo_dir]
  obtain w1 where m: "release_try_multi api_url repo_dir releases_dir version_file
                        release_notes_file w = (Inr (), w1)"
    and m_ev: "events w1 = events w @ [Request (api_url @ ''/releases/latest''),
                           Log (New_release_found (tag_name rel))]
                 @ concat (map (asset_trace w releases_dir) (assets_of rel))
                 @ [Log (Release_notes_generated_at release_notes_file),
                    Log (Version_info_updated (tag_name rel))]"
    and m_st: "files w1 version_file = Some (tag_name rel @ '','' @ target_commitish rel)"
    and m_fs: "files w1 = (foldl (store_asset w releases_dir) (files w) (assets_of rel))
                   (release_notes_file \<mapsto> release_notes_text [],
                    version_file \<mapsto> tag_name rel @ '','' @ target_commitish rel)"
    by blast
  have multi: "check_and_download_release_multi api_url repo_dir releases_dir
                 version_file release_notes_file w = (Inr (), w1)"
    using m by (simp add: check_and_download_release_multi_def)
  have single: "let r = check_and_download_release cfg w
              in fst r = Inr ()
                 \<and> requests_of (events (snd r)) =
                     requests_of (events w) @ (api_url @ ''/releases/latest'')
                       # map browser_download_url (assets_of rel)
                 \<and> files (snd r) version_file
                     = Some (tag_name rel @ '','' @ target_commitish rel)
                 \<and> files (snd r) =
                     (foldl (store_asset w releases_dir) (files w) (assets_of rel))
                       (release_notes_file \<mapsto> release_notes_text [],
                        version_file \<mapsto> tag_name rel @ '','' @ target_commitish rel)"
    if eqs: "api_url = GITHUB_API_URL cfg" "version_file = VERSION_FILE_RELEASE"
       "releases_dir = DOWNLOAD_DIR cfg" "release_notes_file = RELEASE_NOTES_FILE"
  proof -
    from release_try_proceeds [of w cfg rel] fetched new dl wnotes state eqs
    obtain w2 where s: "release_try cfg w = (Inr (), w2)"
      and s_ev: "events w2 = events w @ [Request (api_url @ ''/releases/latest''),
                           Log (New_release_found (tag_name rel))]
                 @ concat (map (asset_trace w releases_dir) (assets_of rel))
                 @ [Log Release_notes_generated, Log (Version_info_updated (tag_name rel))]"
      and s_st: "files w2 version_file = Some (tag_name rel @ '','' @ target_commitish rel)"
      and s_fs: "files w2 = (foldl (store_asset w releases_dir) (files w) (assets_of rel))
                   (release_notes_file \<mapsto> release_notes_text [],
                    version_file \<mapsto> tag_name rel @ '','' @ target_commitish rel)"
      by auto
    have "check_and_download_release cfg w = (Inr (), w2)"
      using s by (simp add: check_and_download_release_def)
    then show ?thesis using s_ev s_st s_fs by simp
  qed
  show ?thesis
    using multi m_ev m_st m_fs single by (simp add: Let_def)
qed

theorem release_sync_changed_pair_witness:
  "files example_stale_world VERSION_FILE_RELEASE = Some ''v0.9,abc123''
   \<and> read_state ''v0.9,abc123'' = Inr (''v0.9'', ''abc123'')
   \<and> ''v0.9'' \<noteq> tag_name example_release
   \<and> ''abc123'' = target_commitish example_release
   \<and> requests_of (events (snd (check_and_download_release example_config example_stale_world)))
       = [''https://api.github.com/repos/O/R/releases/latest'', ''https://dl/a.zip'',
          ''https://dl/b.zip'']
   \<and> files (snd (check_and_download_release example_config example_stale_world))
        VERSION_FILE_RELEASE = Some ''v1.0,abc123''
   \<and> files (snd (check_and_download_release example_config example_stale_world))
        ''downloads/b.zip'' = Some ''PKzip''
   \<and> files (snd (check_and_download_release example_config example_stale_world))
        ''downloads/a.zip'' = None"
proof -
  have rs: "read_state ''v0.9,abc123'' = Inr (''v0.9'', ''abc123'')"
    by (simp add: read_state_def strip_def strip_by_def py_isspace_def unpack2_def)
  show ?thesis
    using release_sync_changed_pair [where w = example_stale_world and version_file = VERSION_FILE_RELEASE
        and content = "''v0.9,abc123''" and t = "''v0.9''" and h = "''abc123''"
        and rel = example_release and api_url = "GITHUB_API_URL example_config"
        and cfg = example_config and releases_dir = "DOWNLOAD_DIR example_config"
        and release_notes_file = RELEASE_NOTES_FILE]
    by (simp add: rs example_stale_world_def example_world_def example_release_def
          example_config_def VERSION_FILE_RELEASE_def RELEASE_NOTES_FILE_def
          GITHUB_API_URL_def assets_of_def download_returns_def store_asset_def
          path_join_def Let_def)
qed





section \<open>Failed metadata requests\<close>

text \<open>
  C4. When the metadata request of a sync fails with an exception of the HTTP library
  (an error status or a network failure), the sync returns normally, and the world
  afterwards is the world before with the request and one error message added to the
  trace: no file is written. This holds for Release Sync and for Branch Sync.
\<close>

theorem failed_metadata_fetch_changes_nothing:
  assumes "is_RequestException e"
  shows "(http_release w (GITHUB_API_URL cfg @ ''/releases/latest'') = Inl e \<longrightarrow>
            check_and_download_release cfg w =
              (Inr (), w\<lparr>events := events w @
                 [Request (GITHUB_API_URL cfg @ ''/releases/latest''),
                  Log (if is_HTTPError e then Release_http_error e
                       else Release_unknown_error e)]\<rparr>))
         \<and> (http_commit w (GITHUB_API_URL cfg @ ''/commits/master'') = Inl e \<longrightarrow>
            check_and_download_master cfg w =
              (Inr (), w\<lparr>events := events w @
                 [Request (GITHUB_API_URL cfg @ ''/commits/master''),
                  Log (if is_HTTPError e then Master_http_error e
                       else Master_unknown_error e)]\<rparr>))"
  using assms
  by (cases e)
     (simp_all add: check_and_download_release_def check_and_download_master_def
        release_try_def master_try_def handle_errors_def get_latest_release_def
        get_latest_commit_def bind_io_def logging_def emit_def)

theorem failed_metadata_fetch_changes_nothing_witness:
  "is_RequestException (HTTPError ''404'')
   \<and> http_release example_synced_world
        (GITHUB_API_URL (example_config\<lparr>GITHUB_REPO := ''Gone''\<rparr>) @ ''/releases/latest'')
       = Inl (HTTPError ''404'')
   \<and> check_and_download_release (example_config\<lparr>GITHUB_REPO := ''Gone''\<rparr>)
        example_synced_world
       = (Inr (), example_synced_world\<lparr>events :=
            [Request ''https://api.github.com/repos/O/Gone/releases/latest'',
             Log (Release_http_error (HTTPError ''404''))]\<rparr>)
   \<and> check_and_download_master (example_config\<lparr>GITHUB_REPO := ''Gone''\<rparr>)
        example_synced_world
       = (Inr (), example_synced_world\<lparr>events :=
            [Request ''https://api.github.com/repos/O/Gone/commits/master'',
             Log (Master_http_error (HTTPError ''404''))]\<rparr>)"
  using failed_metadata_fetch_changes_nothing
    [where e = "HTTPError ''404''" and w = example_synced_world
       and cfg = "example_config\<lparr>GITHUB_REPO := ''Gone''\<rparr>"]
  by (simp add: example_synced_world_def example_world_def example_config_def
        GITHUB_API_URL_def)

section \<open>Branch Sync with a new commit\<close>

lemma master_is_current_emit [simp]:
  "master_is_current vf h (emit ev w) = master_is_current vf h w"
  by (simp add: master_is_current_def)

lemma download_then_write_returns:
  assumes state: "write_errors w vf = None"
    and ret: "download_returns w url dest"
  shows "bind_io (download_file url dest)
           (\<lambda>_. bind_io (write_file vf content) (\<lambda>_. logging msg)) w
         = (Inr (), emit (Log msg)
              ((snd (download_file url dest w))
                 \<lparr>files := (files (snd (download_file url dest w)))(vf \<mapsto> content)\<rparr>))"
proof -
  have "write_errors (snd (download_file url dest w)) vf = None"
    using state by simp
  then show ?thesis
    using download_file_returns(1) [OF ret]
    by (simp add: bind_io_fst write_file_ok logging_def)
qed

lemma download_then_write_raises:
  assumes "\<not> download_returns w url dest"
  shows "\<exists>e. bind_io (download_file url dest)
           (\<lambda>_. bind_io (write_file vf content) (\<lambda>_. logging msg)) w
         = (Inl e, snd (download_file url dest w))"
  using download_file_raises [OF assms] by (auto simp: bind_io_fst_Inl)

lemma master_try_new:
  assumes fetched: "http_commit w (GITHUB_API_URL cfg @ ''/commits/master'') = Inr c"
    and new: "master_is_current VERSION_FILE_MASTER (sha c) w = Inr False"
  shows "master_try cfg w =
           bind_io (download_file (master_zip_url cfg) (master_dest_path cfg))
             (\<lambda>_. bind_io (write_file VERSION_FILE_MASTER (''master,'' @ sha c))
               (\<lambda>_. logging (Master_version_updated (sha c))))
             (emit (Log New_commit_found)
                (emit (Request (GITHUB_API_URL cfg @ ''/commits/master'')) w))"
  using assms
  by (simp add: master_try_def get_latest_commit_def bind_io_def Let_def logging_def)

lemma parse_github_url_frame [simp]:
  "files (snd (parse_github_url u w)) = files w"
  "same_env w (snd (parse_github_url u w))"
  by (simp_all add: parse_github_url_def Let_def same_env_def split: sum.splits)

lemma same_env_master_zip_url_multi [simp]:
  "same_env w (snd (master_zip_url_multi api_url branch w))"
  unfolding master_zip_url_multi_def
  by (intro same_env_bind) simp_all

lemma files_bind:
  assumes "\<And>w. files (snd (m w)) = files w" and "\<And>x w. files (snd (f x w)) = files w"
  shows "files (snd (bind_io m f w)) = files w"
proof (cases "fst (m w)")
  case (Inl e)
  then show ?thesis using assms(1) [of w] by (simp add: bind_io_fst_Inl)
next
  case (Inr x)
  then show ?thesis using assms(1) [of w] assms(2) [of x "snd (m w)"] by (simp add: bind_io_fst)
qed

lemma files_master_zip_url_multi [simp]:
  "files (snd (master_zip_url_multi api_url branch w)) = files w"
  unfolding master_zip_url_multi_def
  by (intro files_bind) simp_all

lemma master_zip_url_multi_plain:
  assumes "plain_netloc api_url"
  obtains u where "\<And>w. fst (master_zip_url_multi api_url branch w) = Inr u"
proof -
  have "\<exists>p. \<forall>w. fst (parse_github_url api_url w) = Inr p"
    by (cases "length (path_parts_of api_url) < 2")
       (simp_all add: parse_github_url_plain [OF assms])
  then obtain p where p: "\<And>w. fst (parse_github_url api_url w) = Inr p" by blast
  have "fst (master_zip_url_multi api_url branch w) =
          Inr (''https://github.com/'' @ fstr (fst p) @ ''/'' @ fstr (snd p)
                 @ ''/archive/refs/heads/'' @ branch @ ''.zip'')" for w
    by (simp add: master_zip_url_multi_def
          bind_io_fst [where m = "parse_github_url api_url", OF p])
  then show ?thesis using that by blast
qed

lemma master_try_multi_new:
  assumes fetched: "http_commit w (api_url @ ''/commits/'' @ branch) = Inr c"
    and new: "master_is_current version_file_master (sha c) w = Inr False"
    and url: "\<And>w'. fst (master_zip_url_multi api_url branch w') = Inr u"
  shows "master_try_multi api_url repo_dir master_zip_path version_file_master branch w =
           bind_io (download_file u master_zip_path)
             (\<lambda>_. bind_io (write_file version_file_master (branch @ '','' @ sha c))
               (\<lambda>_. logging (Master_version_updated (sha c))))
             (snd (master_zip_url_multi api_url branch
                (emit (Log New_commit_found)
                   (emit (Request (api_url @ ''/commits/'' @ branch)) w))))"
  using fetched new
  by (simp add: master_try_multi_def get_latest_commit_def Let_def
        bind_io_fst [where m = "master_zip_url_multi api_url branch", OF url])

lemma master_dest_path_not_state: "master_dest_path cfg \<noteq> VERSION_FILE_MASTER"
proof
  assume "master_dest_path cfg = VERSION_FILE_MASTER"
  then have "last (master_dest_path cfg) = last VERSION_FILE_MASTER" by simp
  then show False
    by (simp add: master_dest_path_def path_join_def VERSION_FILE_MASTER_def split: if_splits)
qed

lemma download_error_cong:
  "http_stream w' = http_stream w \<Longrightarrow> download_error w' url = download_error w url"
  by (simp add: download_error_def)

lemma branch_sync_tail:
  assumes body: "body w =
           bind_io (download_file url dest)
             (\<lambda>_. bind_io (write_file vf content) (\<lambda>_. logging msg)) wa"
    and env: "same_env w wa" and fl: "files wa = files w"
    and state: "write_errors w vf = None"
  shows "(\<forall>e. http_stream w url = Inl e \<and> is_RequestException e \<longrightarrow>
            Log (Download_failed url e) \<in> set (events (snd (handle_errors on_http on_other body w))))
         \<and> (download_returns w url dest \<longrightarrow>
              fst (handle_errors on_http on_other body w) = Inr ()
              \<and> files (snd (handle_errors on_http on_other body w)) vf = Some content)
         \<and> (\<not> download_returns w url dest \<and> dest \<noteq> vf \<longrightarrow>
              files (snd (handle_errors on_http on_other body w)) vf = files w vf)"
proof (intro conjI allI impI)
  have enva: "http_stream wa = http_stream w" "write_errors wa = write_errors w"
    using env by (simp_all add: same_env_def)
  have ret_eq: "download_returns wa url dest = download_returns w url dest"
    by (rule download_returns_cong [OF enva])
  have statea: "write_errors wa vf = None" using state enva by simp
  {
    assume ret: "download_returns w url dest"
    then have reta: "download_returns wa url dest" using ret_eq by simp
    have b: "body w = (Inr (), emit (Log msg)
              ((snd (download_file url dest wa))
                 \<lparr>files := (files (snd (download_file url dest wa)))(vf \<mapsto> content)\<rparr>))"
      unfolding body by (rule download_then_write_returns [OF statea reta])
    show "fst (handle_errors on_http on_other body w) = Inr ()"
      using b by (simp add: handle_errors_def)
    show "files (snd (handle_errors on_http on_other body w)) vf = Some content"
      using b by simp
  }
  {
    fix e assume e: "http_stream w url = Inl e \<and> is_RequestException e"
    then have ret: "download_returns w url dest" by (simp add: download_returns_def)
    then have reta: "download_returns wa url dest" using ret_eq by simp
    have b: "body w = (Inr (), emit (Log msg)
              ((snd (download_file url dest wa))
                 \<lparr>files := (files (snd (download_file url dest wa)))(vf \<mapsto> content)\<rparr>))"
      unfolding body by (rule download_then_write_returns [OF statea reta])
    have "download_error wa url = Some e"
      using e enva by (simp add: download_error_def)
    then have "Log (Download_failed url e) \<in> set (events (snd (download_file url dest wa)))"
      using download_file_returns(2) [OF reta] by simp
    then show "Log (Download_failed url e) \<in> set (events (snd (handle_errors on_http on_other body w)))"
      using b by (simp add: handle_errors_def)
  }
  {
    assume raises: "\<not> download_returns w url dest \<and> dest \<noteq> vf"
    then have nreta: "\<not> download_returns wa url dest" using ret_eq by simp
    from download_then_write_raises [OF nreta, of vf content msg]
    obtain e where "body w = (Inl e, snd (download_file url dest wa))"
      unfolding body by blast
    then have "files (snd (handle_errors on_http on_other body w)) vf
                 = files (snd (download_file url dest wa)) vf"
      by simp
    also have "\<dots> = files wa vf"
      using raises download_file_files [of vf dest url wa] by auto
    finally show "files (snd (handle_errors on_http on_other body w)) vf = files w vf"
      using fl by simp
  }
qed

text \<open>
  C5. Branch Sync has fetched a commit that is not the stored one (or there is no state
  file), and the branch state file is writable. If the request for the archive fails
  with an exception of the HTTP library, the failure is logged by \<open>download_file\<close>; and
  whenever \<open>download_file\<close> returns, with or without such a failure, the sync returns
  and the state file holds the branch and the new hash. If \<open>download_file\<close> raises,
  the state file is as before. The statement is for the multi-repository function (whose
  archive path is a parameter, assumed different from the state file, and whose API URL
  is assumed to have a plain network location) and, at its paths, for the
  single-repository one.
\<close>

theorem branch_state_advances_when_request_fails:
  assumes fetched: "http_commit w (api_url @ ''/commits/'' @ branch) = Inr c"
    and new: "master_is_current version_file_master (sha c) w = Inr False"
    and state: "write_errors w version_file_master = None"
  shows "(plain_netloc api_url \<longrightarrow>
          (\<exists>url. fst (master_zip_url_multi api_url branch w) = Inr url \<and>
          (let r = check_and_download_master_multi api_url repo_dir master_zip_path
                    version_file_master branch w
          in (\<forall>e. http_stream w url = Inl e \<and> is_RequestException e \<longrightarrow>
                Log (Download_failed url e) \<in> set (events (snd r)))
             \<and> (download_returns w url master_zip_path \<longrightarrow>
                  fst r = Inr ()
                  \<and> files (snd r) version_file_master = Some (branch @ '','' @ sha c))
             \<and> (\<not> download_returns w url master_zip_path
                  \<and> master_zip_path \<noteq> version_file_master \<longrightarrow>
                  files (snd r) version_file_master = files w version_file_master))))
         \<and> (api_url = GITHUB_API_URL cfg \<and> branch = ''master''
              \<and> version_file_master = VERSION_FILE_MASTER \<longrightarrow>
             (let r = check_and_download_master cfg w;
                  url = master_zip_url cfg
              in (\<forall>e. http_stream w url = Inl e \<and> is_RequestException e \<longrightarrow>
                    Log (Download_failed url e) \<in> set (events (snd r)))
                 \<and> (download_returns w url (master_dest_path cfg) \<longrightarrow>
                      fst r = Inr ()
                      \<and> files (snd r) VERSION_FILE_MASTER = Some (''master,'' @ sha c))
                 \<and> (\<not> download_returns w url (master_dest_path cfg) \<longrightarrow>
                      files (snd r) VERSION_FILE_MASTER = files w VERSION_FILE_MASTER)))"
proof (intro conjI impI)
  assume plain: "plain_netloc api_url"
  from master_zip_url_multi_plain [OF plain, of branch]
  obtain u where u: "\<And>w'. fst (master_zip_url_multi api_url branch w') = Inr u" by blast
  let ?w0 = "emit (Log New_commit_found) (emit (Request (api_url @ ''/commits/'' @ branch)) w)"
  let ?w1 = "snd (master_zip_url_multi api_url branch ?w0)"
  have "same_env w ?w0" by (simp add: same_env_def)
  moreover have "same_env ?w0 ?w1" by (rule same_env_master_zip_url_multi)
  ultimately have env: "same_env w ?w1" by (rule same_env_trans)
  have fl: "files ?w1 = files w" by simp
  note t = branch_sync_tail [where body = "master_try_multi api_url repo_dir master_zip_path
      version_file_master branch" and on_http = Master_http_error and on_other = Master_unknown_error,
      OF master_try_multi_new [OF fetched new u] env fl state]
  have "let r = check_and_download_master_multi api_url repo_dir master_zip_path
                    version_file_master branch w
          in (\<forall>e. http_stream w u = Inl e \<and> is_RequestException e \<longrightarrow>
                Log (Download_failed u e) \<in> set (events (snd r)))
             \<and> (download_returns w u master_zip_path \<longrightarrow>
                  fst r = Inr ()
                  \<and> files (snd r) version_file_master = Some (branch @ '','' @ sha c))
             \<and> (\<not> download_returns w u master_zip_path
                  \<and> master_zip_path \<noteq> version_file_master \<longrightarrow>
                  files (snd r) version_file_master = files w version_file_master)"
    unfolding Let_def check_and_download_master_multi_def using t by blast
  then show "\<exists>url. fst (master_zip_url_multi api_url branch w) = Inr url \<and>
          (let r = check_and_download_master_multi api_url repo_dir master_zip_path
                    version_file_master branch w
          in (\<forall>e. http_stream w url = Inl e \<and> is_RequestException e \<longrightarrow>
                Log (Download_failed url e) \<in> set (events (snd r)))
             \<and> (download_returns w url master_zip_path \<longrightarrow>
                  fst r = Inr ()
                  \<and> files (snd r) version_file_master = Some (branch @ '','' @ sha c))
             \<and> (\<not> download_returns w url master_zip_path
                  \<and> master_zip_path \<noteq> version_file_master \<longrightarrow>
                  files (snd r) version_file_master = files w version_file_master))"
    using u [of w] by blast
next
  assume eqs: "api_url = GITHUB_API_URL cfg \<and> branch = ''master''
              \<and> version_file_master = VERSION_FILE_MASTER"
  let ?w0 = "emit (Log New_commit_found)
               (emit (Request (GITHUB_API_URL cfg @ ''/commits/master'')) w)"
  have env: "same_env w ?w0" by (simp add: same_env_def)
  have fl: "files ?w0 = files w" by simp
  have fetched': "http_commit w (GITHUB_API_URL cfg @ ''/commits/master'') = Inr c"
    and new': "master_is_current VERSION_FILE_MASTER (sha c) w = Inr False"
    and state': "write_errors w VERSION_FILE_MASTER = None"
    using fetched new state eqs by simp_all
  note t = branch_sync_tail [where body = "master_try cfg"
      and on_http = Master_http_error and on_other = Master_unknown_error,
      OF master_try_new [OF fetched' new'] env fl state']
  show "let r = check_and_download_master cfg w;
                  url = master_zip_url cfg
              in (\<forall>e. http_stream w url = Inl e \<and> is_RequestException e \<longrightarrow>
                    Log (Download_failed url e) \<in> set (events (snd r)))
                 \<and> (download_returns w url (master_dest_path cfg) \<longrightarrow>
                      fst r = Inr ()
                      \<and> files (snd r) VERSION_FILE_MASTER = Some (''master,'' @ sha c))
                 \<and> (\<not> download_returns w url (master_dest_path cfg) \<longrightarrow>
                      files (snd r) VERSION_FILE_MASTER = files w VERSION_FILE_MASTER)"
    unfolding Let_def check_and_download_master_def
    using t master_dest_path_not_state [of cfg] by blast
qed

theorem branch_state_advances_when_request_fails_witness:
  "http_commit example_flaky_world (GITHUB_API_URL example_config @ ''/commits/master'')
     = Inr \<lparr>sha = ''s1''\<rparr>
   \<and> master_is_current VERSION_FILE_MASTER ''s1'' example_flaky_world = Inr False
   \<and> http_stream example_flaky_world (master_zip_url example_config)
       = Inl (RequestException ''connection reset'')
   \<and> download_returns example_flaky_world (master_zip_url example_config)
        (master_dest_path example_config)
   \<and> fst (check_and_download_master example_config example_flaky_world) = Inr ()
   \<and> files (snd (check_and_download_master example_config example_flaky_world))
        VERSION_FILE_MASTER = Some ''master,s1''
   \<and> Log (Download_failed (master_zip_url example_config)
            (RequestException ''connection reset''))
        \<in> set (events (snd (check_and_download_master example_config example_flaky_world)))
   \<and> plain_netloc (GITHUB_API_URL example_config)
   \<and> files (snd (check_and_download_master_multi (GITHUB_API_URL example_config)
                  ''downloads/R'' ''downloads/R/R_master.zip'' VERSION_FILE_MASTER ''master''
                  example_flaky_world))
        VERSION_FILE_MASTER = Some ''master,s1''"
  using branch_state_advances_when_request_fails [where w = example_flaky_world and cfg = example_config
      and api_url = "GITHUB_API_URL example_config" and branch = "''master''"
      and version_file_master = VERSION_FILE_MASTER and c = "\<lparr>sha = ''s1''\<rparr>"
      and repo_dir = "''downloads/R''" and master_zip_path = "''downloads/R/R_master.zip''"]
  by (auto simp: example_flaky_world_def example_world_def example_config_def
        GITHUB_API_URL_def VERSION_FILE_MASTER_def master_is_current_def
        download_returns_def plain_netloc_example Let_def)

section \<open>The order of events\<close>

lemma appendsI: "(\<And>w. \<exists>es. events (snd (m w)) = events w @ es) \<Longrightarrow> appends m"
  by (simp add: appends_def)

lemma appendsD: "appends m \<Longrightarrow> \<exists>es. events (snd (m w)) = events w @ es"
  by (simp add: appends_def)

lemma appends_return [simp]: "appends (\<lambda>w. (r, w))"
  by (simp add: appends_def)

lemma appends_logging [simp]: "appends (logging m)"
  by (simp add: appends_def)

lemma appends_write_file [simp]: "appends (write_file p c)"
  by (simp add: appends_def)

lemma appends_download_file [simp]: "appends (download_file url dest)"
  by (rule appendsI)
     (simp add: download_file_def write_file_def logging_def Let_def
        split: sum.splits prod.splits option.splits)

lemma appends_bind:
  assumes "appends m" and "\<And>x. appends (f x)"
  shows "appends (bind_io m f)"
proof (rule appendsI)
  fix w
  obtain es where m: "events (snd (m w)) = events w @ es"
    using appendsD [OF assms(1)] by blast
  show "\<exists>es. events (snd (bind_io m f w)) = events w @ es"
  proof (cases "fst (m w)")
    case (Inl e)
    then show ?thesis using m by (simp add: bind_io_fst_Inl)
  next
    case (Inr x)
    obtain es' where "events (snd (f x (snd (m w)))) = events (snd (m w)) @ es'"
      using appendsD [OF assms(2)] by blast
    then show ?thesis using m Inr by (simp add: bind_io_fst)
  qed
qed

lemma appends_handle_errors:
  assumes "appends body"
  shows "appends (handle_errors on_http on_other body)"
proof (rule appendsI)
  fix w
  obtain es where "events (snd (body w)) = events w @ es"
    using appendsD [OF assms] by blast
  then show "\<exists>es. events (snd (handle_errors on_http on_other body w)) = events w @ es"
    by (cases "body w") (auto simp: handle_errors_def logging_def split: sum.splits)
qed

lemma appends_download_assets [simp]: "appends (download_assets dir as)"
proof (induction as)
  case Nil
  show ?case by (simp add: appends_def)
next
  case (Cons a as)
  have "download_assets dir (a # as) =
          bind_io (logging (Downloading_asset (asset_name a)))
            (\<lambda>_. bind_io (download_file (browser_download_url a)
                             (path_join dir (asset_name a)))
              (\<lambda>_. download_assets dir as))"
    by (rule ext) (simp add: Let_def)
  then show ?case
    by (simp only:) (intro appends_bind appends_logging appends_download_file Cons.IH)
qed

lemma appends_download_release_assets [simp]: "appends (download_release_assets rel dir)"
  by (simp add: download_release_assets_def)

lemma appends_generate_release_notes [simp]:
  "appends (generate_release_notes commits)"
  "appends (generate_release_notes_at commits path)"
  by (simp_all add: generate_release_notes_def generate_release_notes_at_def appends_bind)

lemma appends_release_guard:
  assumes "appends k"
  shows "appends (\<lambda>w. case release_is_current vf rel w of
                        Inl e \<Rightarrow> (Inl e, w)
                      | Inr True \<Rightarrow> logging m w
                      | Inr False \<Rightarrow> k w)"
proof (rule appendsI)
  fix w
  obtain es where "events (snd (k w)) = events w @ es"
    using appendsD [OF assms] by blast
  then show "\<exists>es. events (snd (case release_is_current vf rel w of
                        Inl e \<Rightarrow> (Inl e, w)
                      | Inr True \<Rightarrow> logging m w
                      | Inr False \<Rightarrow> k w)) = events w @ es"
    by (auto split: sum.splits bool.splits)
qed

lemma appends_master_guard:
  assumes "appends k"
  shows "appends (\<lambda>w. case master_is_current vf h w of
                        Inl e \<Rightarrow> (Inl e, w)
                      | Inr True \<Rightarrow> logging m w
                      | Inr False \<Rightarrow> k w)"
proof (rule appendsI)
  fix w
  obtain es where "events (snd (k w)) = events w @ es"
    using appendsD [OF assms] by blast
  then show "\<exists>es. events (snd (case master_is_current vf h w of
                        Inl e \<Rightarrow> (Inl e, w)
                      | Inr True \<Rightarrow> logging m w
                      | Inr False \<Rightarrow> k w)) = events w @ es"
    by (auto split: sum.splits bool.splits)
qed

lemma release_first_request:
  assumes "\<And>rel. appends (k rel)"
  shows "\<exists>es. events (snd (handle_errors on_http on_other
                  (bind_io (get_latest_release api_url) k) w))
               = events w @ Request (api_url @ ''/releases/latest'') # es"
proof -
  let ?w0 = "emit (Request (api_url @ ''/releases/latest'')) w"
  have "appends (handle_errors on_http on_other (\<lambda>w'. bind_io (\<lambda>w''. (http_release w (api_url @ ''/releases/latest''), w'')) k w'))"
    by (intro appends_handle_errors appends_bind appends_return assms)
  from appendsD [OF this, of ?w0]
  obtain es where "events (snd (handle_errors on_http on_other
      (\<lambda>w'. bind_io (\<lambda>w''. (http_release w (api_url @ ''/releases/latest''), w'')) k w') ?w0))
      = events ?w0 @ es" by blast
  moreover have "handle_errors on_http on_other (bind_io (get_latest_release api_url) k) w
      = handle_errors on_http on_other
      (\<lambda>w'. bind_io (\<lambda>w''. (http_release w (api_url @ ''/releases/latest''), w'')) k w') ?w0"
    by (simp add: handle_errors_def bind_io_def get_latest_release_def Let_def)
  ultimately show ?thesis by simp
qed

lemma master_first_request:
  assumes "\<And>c. appends (k c)"
  shows "\<exists>es. events (snd (handle_errors on_http on_other
                  (bind_io (get_latest_commit api_url branch) k) w))
               = events w @ Request (api_url @ ''/commits/'' @ branch) # es"
proof -
  let ?u = "api_url @ ''/commits/'' @ branch"
  let ?w0 = "emit (Request ?u) w"
  have "appends (handle_errors on_http on_other (\<lambda>w'. bind_io (\<lambda>w''. (http_commit w ?u, w'')) k w'))"
    by (intro appends_handle_errors appends_bind appends_return assms)
  from appendsD [OF this, of ?w0]
  obtain es where "events (snd (handle_errors on_http on_other
      (\<lambda>w'. bind_io (\<lambda>w''. (http_commit w ?u, w'')) k w') ?w0))
      = events ?w0 @ es" by blast
  moreover have "handle_errors on_http on_other (bind_io (get_latest_commit api_url branch) k) w
      = handle_errors on_http on_other
      (\<lambda>w'. bind_io (\<lambda>w''. (http_commit w ?u, w'')) k w') ?w0"
    by (simp add: handle_errors_def bind_io_def get_latest_commit_def Let_def)
  ultimately show ?thesis by simp
qed

lemma check_and_download_release_first:
  "\<exists>es. events (snd (check_and_download_release cfg w))
          = events w @ Request (GITHUB_API_URL cfg @ ''/releases/latest'') # es"
  unfolding check_and_download_release_def release_try_def Let_def
  by (intro release_first_request appends_release_guard appends_bind)
     simp_all

lemma check_and_download_master_first:
  "\<exists>es. events (snd (check_and_download_master cfg w))
          = events w @ Request (GITHUB_API_URL cfg @ ''/commits/master'') # es"
proof -
  have "\<exists>es. events (snd (handle_errors Master_http_error Master_unknown_error
                  (master_try cfg) w))
               = events w @ Request (GITHUB_API_URL cfg @ ''/commits/'' @ ''master'') # es"
    unfolding master_try_def Let_def
    by (intro master_first_request appends_master_guard appends_bind) simp_all
  then show ?thesis by (simp add: check_and_download_master_def)
qed

lemma check_and_download_release_multi_first:
  "\<exists>es. events (snd (check_and_download_release_multi api_url repo_dir releases_dir
                        version_file release_notes_file w))
          = events w @ Request (api_url @ ''/releases/latest'') # es"
  unfolding check_and_download_release_multi_def release_try_multi_def Let_def
  by (intro release_first_request appends_release_guard appends_bind)
     simp_all

lemma appends_parse_github_url [simp]: "appends (parse_github_url u)"
  by (rule appendsI) (simp add: parse_github_url_def Let_def split: sum.splits)

lemma appends_master_zip_url_multi [simp]: "appends (master_zip_url_multi api_url branch)"
  unfolding master_zip_url_multi_def
  by (intro appends_bind) simp_all

lemma check_and_download_master_multi_first:
  "\<exists>es. events (snd (check_and_download_master_multi api_url repo_dir master_zip_path
                        version_file_master branch w))
          = events w @ Request (api_url @ ''/commits/'' @ branch) # es"
  unfolding check_and_download_master_multi_def master_try_multi_def Let_def
  by (intro master_first_request appends_master_guard appends_bind)
     simp_all

lemma bind_io_returns:
  assumes "fst (bind_io m f w) = Inr y"
  obtains x where "fst (m w) = Inr x" and "bind_io m f w = f x (snd (m w))"
proof (cases "fst (m w)")
  case (Inl e)
  then show ?thesis using assms by (simp add: bind_io_fst_Inl)
next
  case (Inr x)
  then show ?thesis using that by (simp add: bind_io_fst)
qed

lemma first_run_single:
  assumes absent: "\<not> path_exists VERSION_FILE_MASTER w \<or> \<not> path_exists VERSION_FILE_RELEASE w"
    and returns: "fst (main cfg w) = Inr ()"
  shows "\<exists>w1 w2 es1 es2.
           check_and_download_master cfg (emit (Log Initial_download) w) = (Inr (), w1)
           \<and> events w1 = events w @ Log Initial_download
                 # Request (GITHUB_API_URL cfg @ ''/commits/master'') # es1
           \<and> check_and_download_release cfg w1 = (Inr (), w2)
           \<and> events w2 = events w1
                 @ Request (GITHUB_API_URL cfg @ ''/releases/latest'') # es2
           \<and> snd (main cfg w) =
               emit (Log (Checker_running ''10:00'')) (emit (Schedule ''10:00'' Daily_check) w2)"
proof -
  let ?w0 = "emit (Log Initial_download) w"
  let ?reg = "\<lambda>(_::unit) w1. logging (Checker_running ''10:00'')
                          (emit (Schedule ''10:00'' Daily_check) w1)"
  have m: "main cfg w = bind_io (initial_download cfg) ?reg w"
    using absent by (simp add: main_def)
  from returns obtain u where i: "fst (initial_download cfg w) = Inr u"
    and m2: "main cfg w = ?reg u (snd (initial_download cfg w))"
    unfolding m by (rule bind_io_returns)
  have i_eq: "initial_download cfg w =
                bind_io (check_and_download_master cfg)
                  (\<lambda>_. check_and_download_release cfg) ?w0"
    by (simp add: initial_download_def)
  from i obtain u1 where b: "fst (check_and_download_master cfg ?w0) = Inr u1"
    and i2: "initial_download cfg w =
               check_and_download_release cfg (snd (check_and_download_master cfg ?w0))"
    unfolding i_eq by (rule bind_io_returns)
  let ?w1 = "snd (check_and_download_master cfg ?w0)"
  let ?w2 = "snd (check_and_download_release cfg ?w1)"
  obtain es1 where e1: "events ?w1 = events ?w0 @ Request (GITHUB_API_URL cfg @ ''/commits/master'') # es1"
    using check_and_download_master_first [of cfg ?w0] by blast
  obtain es2 where e2: "events ?w2 = events ?w1 @ Request (GITHUB_API_URL cfg @ ''/releases/latest'') # es2"
    using check_and_download_release_first [of cfg ?w1] by blast
  have "check_and_download_master cfg ?w0 = (Inr (), ?w1)"
    using b by (cases "check_and_download_master cfg ?w0") simp
  moreover have "check_and_download_release cfg ?w1 = (Inr (), ?w2)"
    using i i2 by (cases "check_and_download_release cfg ?w1") simp
  moreover have "snd (main cfg w) =
      emit (Log (Checker_running ''10:00'')) (emit (Schedule ''10:00'' Daily_check) ?w2)"
    using m2 i2 by (simp add: logging_def)
  moreover have "events ?w1 = events w @ Log Initial_download
                 # Request (GITHUB_API_URL cfg @ ''/commits/master'') # es1"
    using e1 by simp
  ultimately show ?thesis using e2 by blast
qed

lemma first_run_multi:
  fixes download_dir repo_url owner repo rest w repo_dir releases_dir api_url vfm vfr nts zipf w0
  defines "repo_dir \<equiv> path_join download_dir repo"
  defines "releases_dir \<equiv> path_join repo_dir ''releases''"
  defines "api_url \<equiv> get_github_api_url owner repo"
  defines "vfm \<equiv> path_join repo_dir ''version_info_master.txt''"
  defines "vfr \<equiv> path_join repo_dir ''version_info_release.txt''"
  defines "nts \<equiv> path_join repo_dir ''release_notes.txt''"
  defines "zipf \<equiv> path_join repo_dir (repo @ ''_master.zip'')"
  defines "w0 \<equiv> emit (Log (Initial_download_for repo)) (emit (Makedirs releases_dir) w)"
  assumes plain: "plain_netloc repo_url"
    and parts: "path_parts_of repo_url = owner # repo # rest" "owner \<noteq> []" "repo \<noteq> []"
    and absent: "\<not> path_exists vfm w \<or> \<not> path_exists vfr w"
    and returns: "fst (process_repository download_dir repo_url w) = Inr ()"
  shows "\<exists>w1 w2 es1 es2.
           check_and_download_master_multi api_url repo_dir zipf vfm ''master'' w0 = (Inr (), w1)
           \<and> events w1 = events w0 @ Request (api_url @ ''/commits/master'') # es1
           \<and> check_and_download_release_multi api_url repo_dir releases_dir vfr nts w1
               = (Inr (), w2)
           \<and> events w2 = events w1 @ Request (api_url @ ''/releases/latest'') # es2
           \<and> snd (process_repository download_dir repo_url w) =
               emit (Log (Checks_scheduled_for ''10:00'' repo))
                 (emit (Schedule ''10:00''
                    (Daily_check_for owner repo api_url repo_dir releases_dir)) w2)"
proof -
  let ?wd = "emit (Makedirs releases_dir) w"
  let ?reg = "\<lambda>(_::unit) w3. logging (Checks_scheduled_for ''10:00'' repo)
                 (emit (Schedule ''10:00''
                    (Daily_check_for owner repo api_url repo_dir releases_dir)) w3)"
  let ?init = "initial_download_multi owner repo api_url repo_dir releases_dir"
  have absent': "\<not> path_exists vfm ?wd \<or> \<not> path_exists vfr ?wd"
    using absent by (simp add: path_exists_def)
  have p: "process_repository download_dir repo_url w = bind_io ?init ?reg ?wd"
    using parts absent'
    by (simp add: process_repository_def parse_github_url_plain [OF plain]
          setup_repository_dirs_def falsy_def Let_def repo_dir_def releases_dir_def
          api_url_def vfm_def vfr_def)
  from returns obtain u where i: "fst (?init ?wd) = Inr u"
    and p2: "process_repository download_dir repo_url w = ?reg u (snd (?init ?wd))"
    unfolding p by (rule bind_io_returns)
  have i_eq: "?init ?wd =
                bind_io (check_and_download_master_multi api_url repo_dir zipf vfm ''master'')
                  (\<lambda>_. check_and_download_release_multi api_url repo_dir releases_dir vfr nts) w0"
    by (simp add: initial_download_multi_def Let_def w0_def vfm_def vfr_def nts_def zipf_def)
  let ?w1 = "snd (check_and_download_master_multi api_url repo_dir zipf vfm ''master'' w0)"
  let ?w2 = "snd (check_and_download_release_multi api_url repo_dir releases_dir vfr nts ?w1)"
  from i obtain u1 where
      b: "fst (check_and_download_master_multi api_url repo_dir zipf vfm ''master'' w0) = Inr u1"
    and i2: "?init ?wd = check_and_download_release_multi api_url repo_dir releases_dir vfr nts ?w1"
    unfolding i_eq by (rule bind_io_returns)
  obtain es1 where e1: "events ?w1 = events w0 @ Request (api_url @ ''/commits/'' @ ''master'') # es1"
    using check_and_download_master_multi_first [of api_url repo_dir zipf vfm "''master''" w0]
    by blast
  obtain es2 where e2: "events ?w2 = events ?w1 @ Request (api_url @ ''/releases/latest'') # es2"
    using check_and_download_release_multi_first [of api_url repo_dir releases_dir vfr nts ?w1]
    by blast
  have "check_and_download_master_multi api_url repo_dir zipf vfm ''master'' w0 = (Inr (), ?w1)"
    using b by (cases "check_and_download_master_multi api_url repo_dir zipf vfm ''master'' w0") simp
  moreover have "check_and_download_release_multi api_url repo_dir releases_dir vfr nts ?w1
                   = (Inr (), ?w2)"
    using i i2
    by (cases "check_and_download_release_multi api_url repo_dir releases_dir vfr nts ?w1") simp
  moreover have "snd (process_repository download_dir repo_url w) =
               emit (Log (Checks_scheduled_for ''10:00'' repo))
                 (emit (Schedule ''10:00''
                    (Daily_check_for owner repo api_url repo_dir releases_dir)) ?w2)"
    using p2 i2 by (simp add: logging_def)
  moreover have "events ?w1 = events w0 @ Request (api_url @ ''/commits/master'') # es1"
    using e1 by simp
  ultimately show ?thesis using e2 by blast
qed

text \<open>
  C7, amended. On a first run, when one of the two state files is absent, and when the
  run returns: Branch Sync runs first, on the world in which the start of the initial
  download has been logged, and its first event is the request for the commit; Release
  Sync runs on the world Branch Sync leaves, and its first event is the request for the
  latest release; the daily task is registered, and that logged, on the world Release
  Sync leaves. This holds for \<open>main\<close> of the single-repository script and for
  \<open>process_repository\<close> of the multi-repository one, there for a URL with a plain
  network location and at least two path parts, none of the first two empty.
\<close>

theorem first_run_branch_sync_then_release_sync:
  "((\<not> path_exists VERSION_FILE_MASTER w \<or> \<not> path_exists VERSION_FILE_RELEASE w)
     \<and> fst (main cfg w) = Inr () \<longrightarrow>
    (\<exists>w1 w2 es1 es2.
       check_and_download_master cfg (emit (Log Initial_download) w) = (Inr (), w1)
       \<and> events w1 = events w @ Log Initial_download
             # Request (GITHUB_API_URL cfg @ ''/commits/master'') # es1
       \<and> check_and_download_release cfg w1 = (Inr (), w2)
       \<and> events w2 = events w1 @ Request (GITHUB_API_URL cfg @ ''/releases/latest'') # es2
       \<and> snd (main cfg w) =
           emit (Log (Checker_running ''10:00'')) (emit (Schedule ''10:00'' Daily_check) w2)))
   \<and> (let repo_dir = path_join download_dir repo;
           releases_dir = path_join repo_dir ''releases'';
           api_url = get_github_api_url owner repo;
           vfm = path_join repo_dir ''version_info_master.txt'';
           vfr = path_join repo_dir ''version_info_release.txt'';
           nts = path_join repo_dir ''release_notes.txt'';
           zipf = path_join repo_dir (repo @ ''_master.zip'');
           w0 = emit (Log (Initial_download_for repo)) (emit (Makedirs releases_dir) w)
       in plain_netloc repo_url
          \<and> path_parts_of repo_url = owner # repo # rest \<and> owner \<noteq> [] \<and> repo \<noteq> []
          \<and> (\<not> path_exists vfm w \<or> \<not> path_exists vfr w)
          \<and> fst (process_repository download_dir repo_url w) = Inr () \<longrightarrow>
          (\<exists>w1 w2 es1 es2.
             check_and_download_master_multi api_url repo_dir zipf vfm ''master'' w0
               = (Inr (), w1)
             \<and> events w1 = events w0 @ Request (api_url @ ''/commits/master'') # es1
             \<and> check_and_download_release_multi api_url repo_dir releases_dir vfr nts w1
                 = (Inr (), w2)
             \<and> events w2 = events w1 @ Request (api_url @ ''/releases/latest'') # es2
             \<and> snd (process_repository download_dir repo_url w) =
                 emit (Log (Checks_scheduled_for ''10:00'' repo))
                   (emit (Schedule ''10:00''
                      (Daily_check_for owner repo api_url repo_dir releases_dir)) w2)))"
  unfolding Let_def
  using first_run_single [of w cfg]
    first_run_multi [where repo_url = repo_url and owner = owner and repo = repo
      and rest = rest and download_dir = download_dir and w = w]
  by blast

text \<open>
  The claim as written (Release Sync first) fails: on a first run of the example, the
  first request is the one for the commit of the branch, and the request for the latest
  release comes after the archive has been fetched.
\<close>

theorem first_run_release_sync_first_counterexample:
  "\<not> path_exists VERSION_FILE_MASTER example_world
   \<and> \<not> path_exists VERSION_FILE_RELEASE example_world
   \<and> requests_of (events (snd (main example_config example_world)))
       = [''https://api.github.com/repos/O/R/commits/master'',
          ''https://github.com/O/R/archive/refs/heads/master.zip'',
          ''https://api.github.com/repos/O/R/releases/latest'',
          ''https://dl/a.zip'', ''https://dl/b.zip'']
   \<and> hd (requests_of (events (snd (main example_config example_world))))
       \<noteq> ''https://api.github.com/repos/O/R/releases/latest''"
  by (simp add: run_defs example_world_def example_release_def example_config_def)

theorem first_run_branch_sync_then_release_sync_witness:
  "\<not> path_exists VERSION_FILE_MASTER example_world
   \<and> fst (main example_config example_world) = Inr ()
   \<and> plain_netloc ''https://github.com/O/R''
   \<and> path_parts_of ''https://github.com/O/R'' = ''O'' # ''R'' # []
   \<and> fst (process_repository ''downloads'' ''https://github.com/O/R'' example_world) = Inr ()
   \<and> (\<exists>w2. snd (main example_config example_world) =
           emit (Log (Checker_running ''10:00'')) (emit (Schedule ''10:00'' Daily_check) w2))
   \<and> (\<exists>w2. snd (process_repository ''downloads'' ''https://github.com/O/R'' example_world) =
         emit (Log (Checks_scheduled_for ''10:00'' ''R''))
           (emit (Schedule ''10:00''
              (Daily_check_for ''O'' ''R'' ''https://api.github.com/repos/O/R''
                 ''downloads/R'' ''downloads/R/releases'')) w2))"
proof -
  have a: "\<not> path_exists VERSION_FILE_MASTER example_world"
    by (simp add: path_exists_def example_world_def)
  have b: "fst (main example_config example_world) = Inr ()"
    by (simp add: run_defs example_world_def example_release_def example_config_def)
  have c: "path_parts_of ''https://github.com/O/R'' = ''O'' # ''R'' # []"
    by (simp add: path_parts_example)
  have d: "fst (process_repository ''downloads'' ''https://github.com/O/R'' example_world)
             = Inr ()"
    by (simp add: run_defs path_parts_example example_world_def example_release_def)
  have e: "\<not> path_exists (path_join (path_join ''downloads'' ''R'') ''version_info_master.txt'')
             example_world"
    by (simp add: path_exists_def example_world_def)
  have p: "path_join ''downloads'' ''R'' = ''downloads/R''"
    "path_join ''downloads/R'' ''releases'' = ''downloads/R/releases''"
    "get_github_api_url ''O'' ''R'' = ''https://api.github.com/repos/O/R''"
    by (simp_all add: path_join_def get_github_api_url_def)
  note t = first_run_branch_sync_then_release_sync [where w = example_world and cfg = example_config
      and repo_url = "''https://github.com/O/R''" and owner = "''O''" and repo = "''R''"
      and rest = "[]" and download_dir = "''downloads''", unfolded Let_def]
  from t a b obtain w2 where
    "snd (main example_config example_world) =
       emit (Log (Checker_running ''10:00'')) (emit (Schedule ''10:00'' Daily_check) w2)"
    by blast
  moreover from t c d e plain_netloc_example(1) obtain w2' where
    "snd (process_repository ''downloads'' ''https://github.com/O/R'' example_world) =
         emit (Log (Checks_scheduled_for ''10:00'' ''R''))
           (emit (Schedule ''10:00''
              (Daily_check_for ''O'' ''R'' ''https://api.github.com/repos/O/R''
                 ''downloads/R'' ''downloads/R/releases'')) w2')"
    unfolding p by blast
  ultimately show ?thesis using a b c d plain_netloc_example(1) by blast
qed

section \<open>The archive URL of the multi-repository script\<close>

text \<open>
  C6. In the single-repository script the archive URL is built from owner and
  repository. The multi-repository script builds it from \<open>parse_github_url\<close> applied to
  the API URL, whose path parts are \<open>repos\<close>, the owner and the repository: on the example
  repository \<open>O/R\<close> the archive is requested from \<open>https://github.com/repos/O/...\<close> and
  not from \<open>https://github.com/O/R/...\<close>; what arrives is saved as \<open>R_master.zip\<close> in the
  repository directory.
\<close>

theorem multi_repository_archive_url_at_example:
  "requests_of (events (snd (process_repository ''downloads'' ''https://github.com/O/R''
       example_world)))
     = [''https://api.github.com/repos/O/R/commits/master'',
        ''https://github.com/repos/O/archive/refs/heads/master.zip'',
        ''https://api.github.com/repos/O/R/releases/latest'',
        ''https://dl/a.zip'', ''https://dl/b.zip'']
   \<and> files (snd (process_repository ''downloads'' ''https://github.com/O/R'' example_world))
        ''downloads/R/R_master.zip'' = Some ''PKzip''
   \<and> master_zip_url \<lparr>GITHUB_OWNER = ''O'', GITHUB_REPO = ''R'', DOWNLOAD_DIR = ''downloads''\<rparr>
       = ''https://github.com/O/R/archive/refs/heads/master.zip''"
  by (simp add: run_defs path_parts_example example_world_def example_release_def)

theorem multi_repository_archive_url_at_example_witness:
  "\<not> path_exists ''downloads/R/version_info_master.txt'' example_world
   \<and> ''https://github.com/O/R/archive/refs/heads/master.zip''
       \<notin> set (requests_of (events (snd (process_repository ''downloads''
                  ''https://github.com/O/R'' example_world))))"
  using multi_repository_archive_url_at_example
  by (simp add: path_exists_def example_world_def)

section \<open>The content of the state files\<close>

lemma release_try_new:
  assumes "http_release w (GITHUB_API_URL cfg @ ''/releases/latest'') = Inr rel"
    and "release_is_current VERSION_FILE_RELEASE rel w = Inr False"
  shows "release_try cfg w =
           bind_io (logging (New_release_found (tag_name rel)))
             (\<lambda>_. bind_io (download_release_assets rel (DOWNLOAD_DIR cfg))
               (\<lambda>_. bind_io (generate_release_notes [])
                 (\<lambda>_. bind_io
                   (write_file VERSION_FILE_RELEASE
                      (tag_name rel @ '','' @ target_commitish rel))
                   (\<lambda>_. logging (Version_info_updated (tag_name rel))))))
             (emit (Request (GITHUB_API_URL cfg @ ''/releases/latest'')) w)"
  using assms
  by (simp add: release_try_def get_latest_release_def bind_io_def Let_def)

lemma release_try_multi_new:
  assumes "http_release w (api_url @ ''/releases/latest'') = Inr rel"
    and "release_is_current version_file rel w = Inr False"
  shows "release_try_multi api_url repo_dir releases_dir version_file release_notes_file w =
           bind_io (logging (New_release_found (tag_name rel)))
             (\<lambda>_. bind_io (download_release_assets rel releases_dir)
               (\<lambda>_. bind_io (generate_release_notes_at [] release_notes_file)
                 (\<lambda>_. bind_io
                   (write_file version_file
                      (tag_name rel @ '','' @ target_commitish rel))
                   (\<lambda>_. logging (Version_info_updated (tag_name rel))))))
             (emit (Request (api_url @ ''/releases/latest'')) w)"
  using assms
  by (simp add: release_try_multi_def get_latest_release_def bind_io_def Let_def)

lemma write_then_log_returns:
  assumes "fst (bind_io (write_file vf c) (\<lambda>_. logging msg) w) = Inr u"
  shows "files (snd (bind_io (write_file vf c) (\<lambda>_. logging msg) w)) vf = Some c"
  using assms
  by (simp add: bind_io_def write_file_def logging_def split: option.splits)

lemma bind_io_returns_then:
  assumes "fst (bind_io m f w) = Inr y"
    and "\<And>x w'. fst (f x w') = Inr y \<Longrightarrow> P (snd (f x w'))"
  shows "P (snd (bind_io m f w))"
proof -
  from assms(1) obtain x where x: "fst (m w) = Inr x" "bind_io m f w = f x (snd (m w))"
    by (rule bind_io_returns)
  then have "fst (f x (snd (m w))) = Inr y" using assms(1) by simp
  then show ?thesis using assms(2) x by simp
qed

lemma update_chain_state:
  assumes "fst (bind_io m1 (\<lambda>_. bind_io m2 (\<lambda>_. bind_io m3
             (\<lambda>_. bind_io (write_file vf c) (\<lambda>_. logging msg)))) w) = Inr u"
  shows "files (snd (bind_io m1 (\<lambda>_. bind_io m2 (\<lambda>_. bind_io m3
             (\<lambda>_. bind_io (write_file vf c) (\<lambda>_. logging msg)))) w)) vf = Some c"
proof -
  let ?t = "bind_io (write_file vf c) (\<lambda>_. logging msg)"
  have s3: "files (snd (bind_io m3 (\<lambda>_. ?t) w')) vf = Some c"
    if "fst (bind_io m3 (\<lambda>_. ?t) w') = Inr u" for w'
    using that by (rule bind_io_returns_then) (rule write_then_log_returns)
  have s2: "files (snd (bind_io m2 (\<lambda>_. bind_io m3 (\<lambda>_. ?t)) w')) vf = Some c"
    if "fst (bind_io m2 (\<lambda>_. bind_io m3 (\<lambda>_. ?t)) w') = Inr u" for w'
    using that by (rule bind_io_returns_then) (rule s3)
  show ?thesis
    using assms by (rule bind_io_returns_then) (rule s2)
qed

lemma branch_chain_state:
  assumes "fst (bind_io m1 (\<lambda>_. bind_io (write_file vf c) (\<lambda>_. logging msg)) w) = Inr u"
  shows "files (snd (bind_io m1 (\<lambda>_. bind_io (write_file vf c) (\<lambda>_. logging msg)) w)) vf
           = Some c"
  using assms by (rule bind_io_returns_then) (rule write_then_log_returns)

text \<open>
  C8, amended. Whenever the body of a sync takes the update path and completes without
  an exception, the state file holds exactly the record: tag, comma, commit for Release
  Sync; \<open>master\<close> (the branch, in the multi-repository script), comma, hash for Branch
  Sync. There is no newline at the end, and nothing of the earlier content remains.
  For Branch Sync of the multi-repository script the API URL is assumed to have a plain
  network location.
\<close>

theorem state_file_content_after_update:
  "(http_release w (GITHUB_API_URL cfg @ ''/releases/latest'') = Inr rel
      \<and> release_is_current VERSION_FILE_RELEASE rel w = Inr False
      \<and> fst (release_try cfg w) = Inr () \<longrightarrow>
    files (snd (check_and_download_release cfg w)) VERSION_FILE_RELEASE
      = Some (tag_name rel @ '','' @ target_commitish rel))
   \<and> (http_commit w (GITHUB_API_URL cfg @ ''/commits/master'') = Inr c
      \<and> master_is_current VERSION_FILE_MASTER (sha c) w = Inr False
      \<and> fst (master_try cfg w) = Inr () \<longrightarrow>
    files (snd (check_and_download_master cfg w)) VERSION_FILE_MASTER
      = Some (''master,'' @ sha c))
   \<and> (http_release w (api_url @ ''/releases/latest'') = Inr rel
      \<and> release_is_current version_file rel w = Inr False
      \<and> fst (release_try_multi api_url repo_dir releases_dir version_file
                release_notes_file w) = Inr () \<longrightarrow>
    files (snd (check_and_download_release_multi api_url repo_dir releases_dir version_file
                  release_notes_file w)) version_file
      = Some (tag_name rel @ '','' @ target_commitish rel))
   \<and> (plain_netloc api_url
      \<and> http_commit w (api_url @ ''/commits/'' @ branch) = Inr c
      \<and> master_is_current version_file_master (sha c) w = Inr False
      \<and> fst (master_try_multi api_url repo_dir master_zip_path version_file_master
                branch w) = Inr () \<longrightarrow>
    files (snd (check_and_download_master_multi api_url repo_dir master_zip_path
                  version_file_master branch w)) version_file_master
      = Some (branch @ '','' @ sha c))"
proof (intro conjI impI)
  assume a: "http_release w (GITHUB_API_URL cfg @ ''/releases/latest'') = Inr rel
      \<and> release_is_current VERSION_FILE_RELEASE rel w = Inr False
      \<and> fst (release_try cfg w) = Inr ()"
  then have eq: "release_try cfg w = bind_io (logging (New_release_found (tag_name rel)))
             (\<lambda>_. bind_io (download_release_assets rel (DOWNLOAD_DIR cfg))
               (\<lambda>_. bind_io (generate_release_notes [])
                 (\<lambda>_. bind_io
                   (write_file VERSION_FILE_RELEASE
                      (tag_name rel @ '','' @ target_commitish rel))
                   (\<lambda>_. logging (Version_info_updated (tag_name rel))))))
             (emit (Request (GITHUB_API_URL cfg @ ''/releases/latest'')) w)"
    by (simp add: release_try_new)
  have "files (snd (release_try cfg w)) VERSION_FILE_RELEASE
          = Some (tag_name rel @ '','' @ target_commitish rel)"
    using a unfolding eq by (intro update_chain_state) simp
  then show "files (snd (check_and_download_release cfg w)) VERSION_FILE_RELEASE
      = Some (tag_name rel @ '','' @ target_commitish rel)"
    by (simp add: check_and_download_release_def)
next
  assume a: "http_commit w (GITHUB_API_URL cfg @ ''/commits/master'') = Inr c
      \<and> master_is_current VERSION_FILE_MASTER (sha c) w = Inr False
      \<and> fst (master_try cfg w) = Inr ()"
  then have eq: "master_try cfg w =
           bind_io (download_file (master_zip_url cfg) (master_dest_path cfg))
             (\<lambda>_. bind_io (write_file VERSION_FILE_MASTER (''master,'' @ sha c))
               (\<lambda>_. logging (Master_version_updated (sha c))))
             (emit (Log New_commit_found)
                (emit (Request (GITHUB_API_URL cfg @ ''/commits/master'')) w))"
    by (simp add: master_try_new)
  have "files (snd (master_try cfg w)) VERSION_FILE_MASTER = Some (''master,'' @ sha c)"
    using a unfolding eq by (intro branch_chain_state) simp
  then show "files (snd (check_and_download_master cfg w)) VERSION_FILE_MASTER
      = Some (''master,'' @ sha c)"
    by (simp add: check_and_download_master_def)
next
  assume a: "http_release w (api_url @ ''/releases/latest'') = Inr rel
      \<and> release_is_current version_file rel w = Inr False
      \<and> fst (release_try_multi api_url repo_dir releases_dir version_file
                release_notes_file w) = Inr ()"
  then have eq: "release_try_multi api_url repo_dir releases_dir version_file
                   release_notes_file w =
           bind_io (logging (New_release_found (tag_name rel)))
             (\<lambda>_. bind_io (download_release_assets rel releases_dir)
               (\<lambda>_. bind_io (generate_release_notes_at [] release_notes_file)
                 (\<lambda>_. bind_io
                   (write_file version_file
                      (tag_name rel @ '','' @ target_commitish rel))
                   (\<lambda>_. logging (Version_info_updated (tag_name rel))))))
             (emit (Request (api_url @ ''/releases/latest'')) w)"
    by (simp add: release_try_multi_new)
  have "files (snd (release_try_multi api_url repo_dir releases_dir version_file
                   release_notes_file w)) version_file
          = Some (tag_name rel @ '','' @ target_commitish rel)"
    using a unfolding eq by (intro update_chain_state) simp
  then show "files (snd (check_and_download_release_multi api_url repo_dir releases_dir
                  version_file release_notes_file w)) version_file
      = Some (tag_name rel @ '','' @ target_commitish rel)"
    by (simp add: check_and_download_release_multi_def)
next
  assume a: "plain_netloc api_url
      \<and> http_commit w (api_url @ ''/commits/'' @ branch) = Inr c
      \<and> master_is_current version_file_master (sha c) w = Inr False
      \<and> fst (master_try_multi api_url repo_dir master_zip_path version_file_master
                branch w) = Inr ()"
  from master_zip_url_multi_plain [of api_url branch] a
  obtain u where u: "\<And>w'. fst (master_zip_url_multi api_url branch w') = Inr u" by blast
  have eq: "master_try_multi api_url repo_dir master_zip_path version_file_master branch w =
           bind_io (download_file u master_zip_path)
             (\<lambda>_. bind_io (write_file version_file_master (branch @ '','' @ sha c))
               (\<lambda>_. logging (Master_version_updated (sha c))))
             (snd (master_zip_url_multi api_url branch
                (emit (Log New_commit_found)
                   (emit (Request (api_url @ ''/commits/'' @ branch)) w))))"
    using a by (intro master_try_multi_new u) simp_all
  have "files (snd (master_try_multi api_url repo_dir master_zip_path version_file_master
                  branch w)) version_file_master = Some (branch @ '','' @ sha c)"
    using a unfolding eq by (intro branch_chain_state) simp
  then show "files (snd (check_and_download_master_multi api_url repo_dir master_zip_path
                  version_file_master branch w)) version_file_master
      = Some (branch @ '','' @ sha c)"
    by (simp add: check_and_download_master_multi_def)
qed

text \<open>
  The claim as written fails: after the updates of the example the state files hold
  the records without a newline at the end.
\<close>

theorem state_file_ends_with_newline_counterexample:
  "files (snd (check_and_download_release example_config example_world)) VERSION_FILE_RELEASE
     = Some ''v1.0,abc123''
   \<and> files (snd (check_and_download_release example_config example_world)) VERSION_FILE_RELEASE
     \<noteq> Some (''v1.0,abc123'' @ [CHR 0x0A])
   \<and> files (snd (check_and_download_master example_config example_world)) VERSION_FILE_MASTER
     = Some ''master,s1''
   \<and> files (snd (check_and_download_master example_config example_world)) VERSION_FILE_MASTER
     \<noteq> Some (''master,s1'' @ [CHR 0x0A])"
  by (simp add: run_defs example_world_def example_release_def example_config_def)

theorem state_file_content_after_update_witness:
  "release_is_current VERSION_FILE_RELEASE example_release example_stale_world = Inr False
   \<and> fst (release_try example_config example_stale_world) = Inr ()
   \<and> master_is_current VERSION_FILE_MASTER ''s1'' example_stale_world = Inr False
   \<and> fst (master_try example_config example_stale_world) = Inr ()
   \<and> files (snd (check_and_download_release example_config example_stale_world))
        VERSION_FILE_RELEASE = Some ''v1.0,abc123''
   \<and> files (snd (check_and_download_master example_config example_stale_world))
        VERSION_FILE_MASTER = Some ''master,s1''
   \<and> plain_netloc ''https://api.github.com/repos/O/R''
   \<and> fst (release_try_multi ''https://api.github.com/repos/O/R'' ''downloads/R''
             ''downloads/R/releases'' ''downloads/R/version_info_release.txt''
             ''downloads/R/release_notes.txt'' example_stale_world) = Inr ()
   \<and> fst (master_try_multi ''https://api.github.com/repos/O/R'' ''downloads/R''
             ''downloads/R/R_master.zip'' ''downloads/R/version_info_master.txt''
             ''master'' example_stale_world) = Inr ()
   \<and> files (snd (check_and_download_release_multi ''https://api.github.com/repos/O/R''
             ''downloads/R'' ''downloads/R/releases'' ''downloads/R/version_info_release.txt''
             ''downloads/R/release_notes.txt'' example_stale_world))
        ''downloads/R/version_info_release.txt'' = Some ''v1.0,abc123''
   \<and> files (snd (check_and_download_master_multi ''https://api.github.com/repos/O/R''
             ''downloads/R'' ''downloads/R/R_master.zip''
             ''downloads/R/version_info_master.txt'' ''master'' example_stale_world))
        ''downloads/R/version_info_master.txt'' = Some ''master,s1''"
proof -
  have rs: "read_state ''v0.9,abc123'' = Inr (''v0.9'', ''abc123'')"
    "read_state ''master,s0'' = Inr (''master'', ''s0'')"
    by (simp_all add: read_state_def strip_def strip_by_def py_isspace_def unpack2_def)
  have a: "release_is_current VERSION_FILE_RELEASE example_release example_stale_world
             = Inr False"
    by (simp add: release_is_current_def rs example_stale_world_def example_world_def
          example_release_def VERSION_FILE_RELEASE_def)
  have b: "fst (release_try example_config example_stale_world) = Inr ()"
    by (simp add: run_defs rs example_stale_world_def example_world_def
          example_release_def example_config_def)
  have c: "master_is_current VERSION_FILE_MASTER ''s1'' example_stale_world = Inr False"
    by (simp add: master_is_current_def rs example_stale_world_def example_world_def
          VERSION_FILE_MASTER_def)
  have d: "fst (master_try example_config example_stale_world) = Inr ()"
    by (simp add: run_defs rs example_stale_world_def example_world_def
          example_release_def example_config_def)
  have e: "http_release example_stale_world
             (GITHUB_API_URL example_config @ ''/releases/latest'') = Inr example_release"
    "http_commit example_stale_world
             (GITHUB_API_URL example_config @ ''/commits/master'') = Inr \<lparr>sha = ''s1''\<rparr>"
    by (simp_all add: example_stale_world_def example_world_def example_config_def
          GITHUB_API_URL_def)
  have u: "GITHUB_API_URL example_config = ''https://api.github.com/repos/O/R''"
    by (simp add: example_config_def GITHUB_API_URL_def)
  have a': "release_is_current ''downloads/R/version_info_release.txt'' example_release
              example_stale_world = Inr False"
    by (simp add: release_is_current_def example_stale_world_def)
  have b': "fst (release_try_multi ''https://api.github.com/repos/O/R'' ''downloads/R''
             ''downloads/R/releases'' ''downloads/R/version_info_release.txt''
             ''downloads/R/release_notes.txt'' example_stale_world) = Inr ()"
    by (simp add: run_defs example_stale_world_def example_world_def example_release_def)
  have c': "master_is_current ''downloads/R/version_info_master.txt'' ''s1''
              example_stale_world = Inr False"
    by (simp add: master_is_current_def example_stale_world_def)
  have d': "fst (master_try_multi ''https://api.github.com/repos/O/R'' ''downloads/R''
             ''downloads/R/R_master.zip'' ''downloads/R/version_info_master.txt''
             ''master'' example_stale_world) = Inr ()"
    by (simp add: run_defs path_parts_example example_stale_world_def example_world_def)
  show ?thesis
    using state_file_content_after_update [where w = example_stale_world
        and cfg = example_config and rel = example_release and c = "\<lparr>sha = ''s1''\<rparr>"
        and api_url = "''https://api.github.com/repos/O/R''" and branch = "''master''"
        and repo_dir = "''downloads/R''" and releases_dir = "''downloads/R/releases''"
        and version_file = "''downloads/R/version_info_release.txt''"
        and release_notes_file = "''downloads/R/release_notes.txt''"
        and master_zip_path = "''downloads/R/R_master.zip''"
        and version_file_master = "''downloads/R/version_info_master.txt''"]
      a b c d e a' b' c' d' u plain_netloc_example(2)
    by (simp add: example_release_def)
qed

section \<open>Malformed state files\<close>

lemma length_split: "length (split d s) = Suc (count_list s d)"
  by (induction s) (auto simp: Let_def)

lemma unpack2_malformed:
  "length parts \<noteq> 2 \<Longrightarrow> \<exists>m. unpack2 parts = Inl (ValueError m)"
  by (auto simp: unpack2_def split: list.splits)

lemma read_state_malformed:
  assumes "count_list (strip content) (CHR '','') \<noteq> 1"
  shows "\<exists>m. read_state content = Inl (ValueError m)"
  unfolding read_state_def
  using assms by (intro unpack2_malformed) (simp add: length_split)

lemma read_state_wellformed:
  assumes "count_list (strip content) (CHR '','') = 1"
  shows "\<exists>a b. read_state content = Inr (a, b)"
proof -
  have "length (split (CHR '','') (strip content)) = 2"
    using assms by (simp add: length_split)
  then obtain a b where "split (CHR '','') (strip content) = [a, b]"
    by (cases "split (CHR '','') (strip content)"; simp)
       (metis length_0_conv length_Suc_conv Suc_inject)
  then show ?thesis by (simp add: read_state_def unpack2_def)
qed

lemma handle_errors_ValueError:
  "body w = (Inl (ValueError m), w') \<Longrightarrow>
     handle_errors on_http on_other body w = (Inr (), emit (Log (on_other (ValueError m))) w')"
  by (simp add: handle_errors_def logging_def)

text \<open>
  C10. A state file whose stripped content does not hold exactly one comma (the empty
  file is one) cannot be unpacked into two names: reading it gives a \<open>ValueError\<close>.
  Whatever the metadata request answers, the sync then leaves every file as it was;
  and when the request succeeds, the sync returns normally with only the request and
  the message of the generic handler added to the trace, so nothing is downloaded. This
  holds for Release Sync and Branch Sync of the single-repository script and for
  Release Sync of the multi-repository one.
\<close>

theorem malformed_state_file_aborts_sync:
  assumes malformed: "count_list (strip content) (CHR '','') \<noteq> 1"
  shows "\<exists>m. read_state content = Inl (ValueError m)
    \<and> (files w VERSION_FILE_RELEASE = Some content \<longrightarrow>
         files (snd (check_and_download_release cfg w)) = files w
         \<and> (\<forall>rel. http_release w (GITHUB_API_URL cfg @ ''/releases/latest'') = Inr rel \<longrightarrow>
               check_and_download_release cfg w =
                 (Inr (), w\<lparr>events := events w @
                    [Request (GITHUB_API_URL cfg @ ''/releases/latest''),
                     Log (Release_unknown_error (ValueError m))]\<rparr>)))
    \<and> (files w VERSION_FILE_MASTER = Some content \<longrightarrow>
         files (snd (check_and_download_master cfg w)) = files w
         \<and> (\<forall>c. http_commit w (GITHUB_API_URL cfg @ ''/commits/master'') = Inr c \<longrightarrow>
               check_and_download_master cfg w =
                 (Inr (), w\<lparr>events := events w @
                    [Request (GITHUB_API_URL cfg @ ''/commits/master''),
                     Log (Master_unknown_error (ValueError m))]\<rparr>)))
    \<and> (files w version_file = Some content \<longrightarrow>
         files (snd (check_and_download_release_multi api_url repo_dir releases_dir
                       version_file release_notes_file w)) = files w
         \<and> (\<forall>rel. http_release w (api_url @ ''/releases/latest'') = Inr rel \<longrightarrow>
               check_and_download_release_multi api_url repo_dir releases_dir
                  version_file release_notes_file w =
                 (Inr (), w\<lparr>events := events w @
                    [Request (api_url @ ''/releases/latest''),
                     Log (Release_unknown_error (ValueError m))]\<rparr>)))"
proof -
  from read_state_malformed [OF malformed]
  obtain m where m: "read_state content = Inl (ValueError m)" by blast
  have rel_s: "files (snd (check_and_download_release cfg w)) = files w
         \<and> (\<forall>rel. http_release w (GITHUB_API_URL cfg @ ''/releases/latest'') = Inr rel \<longrightarrow>
               check_and_download_release cfg w =
                 (Inr (), w\<lparr>events := events w @
                    [Request (GITHUB_API_URL cfg @ ''/releases/latest''),
                     Log (Release_unknown_error (ValueError m))]\<rparr>))"
    if "files w VERSION_FILE_RELEASE = Some content"
    using that m
    by (cases "http_release w (GITHUB_API_URL cfg @ ''/releases/latest'')")
       (simp_all add: check_and_download_release_def release_try_def handle_errors_def
          get_latest_release_def release_is_current_def bind_io_def logging_def emit_def
          Let_def)
  have mas_s: "files (snd (check_and_download_master cfg w)) = files w
         \<and> (\<forall>c. http_commit w (GITHUB_API_URL cfg @ ''/commits/master'') = Inr c \<longrightarrow>
               check_and_download_master cfg w =
                 (Inr (), w\<lparr>events := events w @
                    [Request (GITHUB_API_URL cfg @ ''/commits/master''),
                     Log (Master_unknown_error (ValueError m))]\<rparr>))"
    if "files w VERSION_FILE_MASTER = Some content"
    using that m
    by (cases "http_commit w (GITHUB_API_URL cfg @ ''/commits/master'')")
       (simp_all add: check_and_download_master_def master_try_def handle_errors_def
          get_latest_commit_def master_is_current_def bind_io_def logging_def emit_def
          Let_def)
  have rel_m: "files (snd (check_and_download_release_multi api_url repo_dir releases_dir
                       version_file release_notes_file w)) = files w
         \<and> (\<forall>rel. http_release w (api_url @ ''/releases/latest'') = Inr rel \<longrightarrow>
               check_and_download_release_multi api_url repo_dir releases_dir
                  version_file release_notes_file w =
                 (Inr (), w\<lparr>events := events w @
                    [Request (api_url @ ''/releases/latest''),
                     Log (Release_unknown_error (ValueError m))]\<rparr>))"
    if "files w version_file = Some content"
    using that m
    by (cases "http_release w (api_url @ ''/releases/latest'')")
       (simp_all add: check_and_download_release_multi_def release_try_multi_def
          handle_errors_def get_latest_release_def release_is_current_def bind_io_def
          logging_def emit_def Let_def)
  show ?thesis using m rel_s mas_s rel_m by blast
qed

theorem malformed_state_file_aborts_sync_witness:
  "count_list (strip []) (CHR '','') \<noteq> 1
   \<and> files example_malformed_world VERSION_FILE_RELEASE = Some []
   \<and> files example_malformed_world VERSION_FILE_MASTER = Some []
   \<and> check_and_download_release example_config example_malformed_world =
        (Inr (), example_malformed_world\<lparr>events :=
           [Request ''https://api.github.com/repos/O/R/releases/latest'',
            Log (Release_unknown_error
                   (ValueError ''not enough values to unpack (expected 2, got 1)''))]\<rparr>)
   \<and> check_and_download_master example_config example_malformed_world =
        (Inr (), example_malformed_world\<lparr>events :=
           [Request ''https://api.github.com/repos/O/R/commits/master'',
            Log (Master_unknown_error
                   (ValueError ''not enough values to unpack (expected 2, got 1)''))]\<rparr>)"
proof -
  have c: "count_list (strip []) (CHR '','') \<noteq> 1"
    by (simp add: strip_def strip_by_def)
  have f: "files example_malformed_world VERSION_FILE_RELEASE = Some []"
    "files example_malformed_world VERSION_FILE_MASTER = Some []"
    by (simp_all add: example_malformed_world_def VERSION_FILE_RELEASE_def
          VERSION_FILE_MASTER_def)
  have h: "http_release example_malformed_world
             (GITHUB_API_URL example_config @ ''/releases/latest'') = Inr example_release"
    "http_commit example_malformed_world
             (GITHUB_API_URL example_config @ ''/commits/master'') = Inr \<lparr>sha = ''s1''\<rparr>"
    by (simp_all add: example_malformed_world_def example_world_def example_config_def
          GITHUB_API_URL_def)
  have r: "read_state [] = Inl (ValueError ''not enough values to unpack (expected 2, got 1)'')"
    by (simp add: read_state_def strip_def strip_by_def unpack2_def)
  have u: "GITHUB_API_URL example_config = ''https://api.github.com/repos/O/R''"
    by (simp add: example_config_def GITHUB_API_URL_def)
  from malformed_state_file_aborts_sync [OF c, where w = example_malformed_world
      and cfg = example_config and version_file = VERSION_FILE_RELEASE]
  obtain m where m: "read_state [] = Inl (ValueError m)"
    and a: "check_and_download_release example_config example_malformed_world =
                 (Inr (), example_malformed_world\<lparr>events := events example_malformed_world @
                    [Request (GITHUB_API_URL example_config @ ''/releases/latest''),
                     Log (Release_unknown_error (ValueError m))]\<rparr>)"
    and b: "check_and_download_master example_config example_malformed_world =
                 (Inr (), example_malformed_world\<lparr>events := events example_malformed_world @
                    [Request (GITHUB_API_URL example_config @ ''/commits/master''),
                     Log (Master_unknown_error (ValueError m))]\<rparr>)"
    using f h by blast
  have "m = ''not enough values to unpack (expected 2, got 1)''"
    using m r by simp
  moreover have "events example_malformed_world = []"
    by (simp add: example_malformed_world_def example_world_def)
  ultimately show ?thesis using a b c f u by simp
qed

section \<open>Malformed repository URLs\<close>

lemma with_prefix_simps [simp]:
  "files (with_prefix es w) = files w"
  "write_errors (with_prefix es w) = write_errors w"
  "http_release (with_prefix es w) = http_release w"
  "http_commit (with_prefix es w) = http_commit w"
  "http_stream (with_prefix es w) = http_stream w"
  "bracketed_host_error (with_prefix es w) = bracketed_host_error w"
  "events (with_prefix es w) = es @ events w"
  by (simp_all add: with_prefix_def)

lemma emit_with_prefix [simp]: "emit ev (with_prefix es w) = with_prefix es (emit ev w)"
  by (simp add: emit_def with_prefix_def)

lemma files_update_with_prefix [simp]:
  "(with_prefix es w)\<lparr>files := fs\<rparr> = with_prefix es (w\<lparr>files := fs\<rparr>)"
  by (simp add: with_prefix_def)

lemma trace_blindI:
  "(\<And>es w. m (with_prefix es w) = (fst (m w), with_prefix es (snd (m w)))) \<Longrightarrow> trace_blind m"
  by (simp add: trace_blind_def)

lemma trace_blindD:
  "trace_blind m \<Longrightarrow> m (with_prefix es w) = (fst (m w), with_prefix es (snd (m w)))"
  by (simp add: trace_blind_def)

lemma trace_blind_return [simp]: "trace_blind (\<lambda>w. (r, w))"
  by (simp add: trace_blind_def)

lemma trace_blind_logging [simp]: "trace_blind (logging m)"
  by (simp add: trace_blind_def logging_def)

lemma trace_blind_write_file [simp]: "trace_blind (write_file p c)"
  by (simp add: trace_blind_def write_file_def split: option.splits)

lemma trace_blind_get_latest_release [simp]: "trace_blind (get_latest_release api_url)"
  by (simp add: trace_blind_def get_latest_release_def Let_def)

lemma trace_blind_get_latest_commit [simp]: "trace_blind (get_latest_commit api_url branch)"
  by (simp add: trace_blind_def get_latest_commit_def Let_def)

lemma trace_blind_download_file [simp]: "trace_blind (download_file url dest)"
  by (rule trace_blindI)
     (simp add: download_file_def write_file_def logging_def Let_def
        split: sum.splits prod.splits option.splits)

lemma trace_blind_bind:
  assumes "trace_blind m" and "\<And>x. trace_blind (f x)"
  shows "trace_blind (bind_io m f)"
proof (rule trace_blindI)
  fix es w
  show "bind_io m f (with_prefix es w) = (fst (bind_io m f w), with_prefix es (snd (bind_io m f w)))"
  proof (cases "fst (m w)")
    case (Inl e)
    then show ?thesis
      using trace_blindD [OF assms(1), of es w] by (simp add: bind_io_fst_Inl)
  next
    case (Inr x)
    then show ?thesis
      using trace_blindD [OF assms(1), of es w] trace_blindD [OF assms(2), of x es "snd (m w)"]
      by (simp add: bind_io_fst)
  qed
qed

lemma trace_blind_handle_errors:
  assumes "trace_blind body"
  shows "trace_blind (handle_errors on_http on_other body)"
proof (rule trace_blindI)
  fix es w
  show "handle_errors on_http on_other body (with_prefix es w)
          = (fst (handle_errors on_http on_other body w),
             with_prefix es (snd (handle_errors on_http on_other body w)))"
    using trace_blindD [OF assms, of es w]
    by (cases "body w") (simp add: handle_errors_def logging_def split: sum.splits)
qed

lemma trace_blind_download_assets [simp]: "trace_blind (download_assets dir as)"
proof (induction as)
  case Nil
  show ?case by (simp add: trace_blind_def)
next
  case (Cons a as)
  have "download_assets dir (a # as) =
          bind_io (logging (Downloading_asset (asset_name a)))
            (\<lambda>_. bind_io (download_file (browser_download_url a)
                             (path_join dir (asset_name a)))
              (\<lambda>_. download_assets dir as))"
    by (rule ext) (simp add: Let_def)
  then show ?case
    by (simp only:) (intro trace_blind_bind trace_blind_logging trace_blind_download_file Cons.IH)
qed

lemma trace_blind_download_release_assets [simp]:
  "trace_blind (download_release_assets rel dir)"
  by (simp add: download_release_assets_def)

lemma trace_blind_generate_release_notes [simp]:
  "trace_blind (generate_release_notes commits)"
  "trace_blind (generate_release_notes_at commits path)"
  by (simp_all add: generate_release_notes_def generate_release_notes_at_def trace_blind_bind)

lemma release_is_current_with_prefix [simp]:
  "release_is_current vf rel (with_prefix es w) = release_is_current vf rel w"
  by (simp add: release_is_current_def)

lemma master_is_current_with_prefix [simp]:
  "master_is_current vf h (with_prefix es w) = master_is_current vf h w"
  by (simp add: master_is_current_def)

lemma path_exists_with_prefix [simp]:
  "path_exists p (with_prefix es w) = path_exists p w"
  by (simp add: path_exists_def)

lemma trace_blind_release_guard:
  assumes "trace_blind k"
  shows "trace_blind (\<lambda>w. case release_is_current vf rel w of
                        Inl e \<Rightarrow> (Inl e, w)
                      | Inr True \<Rightarrow> logging m w
                      | Inr False \<Rightarrow> k w)"
proof (rule trace_blindI)
  fix es w
  show "(case release_is_current vf rel (with_prefix es w) of
           Inl e \<Rightarrow> (Inl e, with_prefix es w)
         | Inr True \<Rightarrow> logging m (with_prefix es w)
         | Inr False \<Rightarrow> k (with_prefix es w))
        = (fst (case release_is_current vf rel w of
                  Inl e \<Rightarrow> (Inl e, w) | Inr True \<Rightarrow> logging m w | Inr False \<Rightarrow> k w),
           with_prefix es (snd (case release_is_current vf rel w of
                  Inl e \<Rightarrow> (Inl e, w) | Inr True \<Rightarrow> logging m w | Inr False \<Rightarrow> k w)))"
    using trace_blindD [OF assms, of es w]
    by (simp add: logging_def split: sum.splits bool.splits)
qed

lemma trace_blind_master_guard:
  assumes "trace_blind k"
  shows "trace_blind (\<lambda>w. case master_is_current vf h w of
                        Inl e \<Rightarrow> (Inl e, w)
                      | Inr True \<Rightarrow> logging m w
                      | Inr False \<Rightarrow> k w)"
proof (rule trace_blindI)
  fix es w
  show "(case master_is_current vf h (with_prefix es w) of
           Inl e \<Rightarrow> (Inl e, with_prefix es w)
         | Inr True \<Rightarrow> logging m (with_prefix es w)
         | Inr False \<Rightarrow> k (with_prefix es w))
        = (fst (case master_is_current vf h w of
                  Inl e \<Rightarrow> (Inl e, w) | Inr True \<Rightarrow> logging m w | Inr False \<Rightarrow> k w),
           with_prefix es (snd (case master_is_current vf h w of
                  Inl e \<Rightarrow> (Inl e, w) | Inr True \<Rightarrow> logging m w | Inr False \<Rightarrow> k w)))"
    using trace_blindD [OF assms, of es w]
    by (simp add: logging_def split: sum.splits bool.splits)
qed

lemma urlparse_with_prefix [simp]: "urlparse (with_prefix es w) url = urlparse w url"
  by (simp add: urlparse_def Let_def)

lemma trace_blind_parse_github_url [simp]: "trace_blind (parse_github_url repo_url)"
  by (simp add: trace_blind_def parse_github_url_def Let_def split: sum.splits)

lemma trace_blind_master_zip_url_multi [simp]:
  "trace_blind (master_zip_url_multi api_url branch)"
  unfolding master_zip_url_multi_def
  by (intro trace_blind_bind) simp_all

lemma trace_blind_after_emit:
  assumes "trace_blind k"
  shows "trace_blind (\<lambda>w. k (emit ev w))"
  using assms by (simp add: trace_blind_def)

lemma trace_blind_check_and_download_release_multi [simp]:
  "trace_blind (check_and_download_release_multi api_url repo_dir releases_dir version_file
                  release_notes_file)"
  unfolding check_and_download_release_multi_def release_try_multi_def Let_def
  by (intro trace_blind_handle_errors trace_blind_bind trace_blind_release_guard) simp_all

lemma trace_blind_check_and_download_master_multi [simp]:
  "trace_blind (check_and_download_master_multi api_url repo_dir master_zip_path
                  version_file_master branch)"
  unfolding check_and_download_master_multi_def master_try_multi_def Let_def
  by (intro trace_blind_handle_errors trace_blind_bind trace_blind_master_guard) simp_all

lemma trace_blind_initial_download_multi [simp]:
  "trace_blind (initial_download_multi owner repo api_url repo_dir releases_dir)"
  unfolding initial_download_multi_def Let_def
  by (intro trace_blind_bind) simp_all

lemma trace_blind_setup_and_schedule:
  "trace_blind (\<lambda>w1.
     if falsy ow \<or> falsy rp then (Inr (), w1)
     else
       (let owner = the ow; repo = the rp;
            ((repo_dir, releases_dir), w2) = setup_repository_dirs download_dir owner repo w1;
            api_url = get_github_api_url owner repo;
            version_file_release = path_join repo_dir ''version_info_release.txt'';
            version_file_master = path_join repo_dir ''version_info_master.txt'';
            schedule_time = ''10:00''
        in bind_io
             (if \<not> path_exists version_file_master w2 \<or> \<not> path_exists version_file_release w2
              then initial_download_multi owner repo api_url repo_dir releases_dir
              else (\<lambda>w. (Inr (), w)))
             (\<lambda>_ w3. logging (Checks_scheduled_for schedule_time repo)
                 (emit (Schedule schedule_time
                    (Daily_check_for owner repo api_url repo_dir releases_dir)) w3)) w2))"
  (is "trace_blind ?k")
proof (cases "falsy ow \<or> falsy rp")
  case True
  then show ?thesis by (simp add: trace_blind_def)
next
  case False
  let ?repo_dir = "path_join download_dir (the rp)"
  let ?releases_dir = "path_join ?repo_dir ''releases''"
  let ?vfm = "path_join ?repo_dir ''version_info_master.txt''"
  let ?vfr = "path_join ?repo_dir ''version_info_release.txt''"
  let ?api = "get_github_api_url (the ow) (the rp)"
  let ?reg = "\<lambda>(_::unit) w3. logging (Checks_scheduled_for ''10:00'' (the rp))
                     (emit (Schedule ''10:00''
                        (Daily_check_for (the ow) (the rp) ?api ?repo_dir ?releases_dir)) w3)"
  let ?body = "\<lambda>w2. bind_io
                 (if \<not> path_exists ?vfm w2 \<or> \<not> path_exists ?vfr w2
                  then initial_download_multi (the ow) (the rp) ?api ?repo_dir ?releases_dir
                  else (\<lambda>w. (Inr (), w))) ?reg w2"
  have reg: "\<And>x. trace_blind (?reg x)"
    by (intro trace_blind_after_emit) simp
  have tb: "trace_blind ?body"
  proof (rule trace_blindI)
    fix es w2
    let ?act = "if \<not> path_exists ?vfm w2 \<or> \<not> path_exists ?vfr w2
                then initial_download_multi (the ow) (the rp) ?api ?repo_dir ?releases_dir
                else (\<lambda>w. (Inr (), w))"
    have "trace_blind (bind_io ?act ?reg)"
      by (intro trace_blind_bind reg) simp
    from trace_blindD [OF this, of es w2]
    show "?body (with_prefix es w2) = (fst (?body w2), with_prefix es (snd (?body w2)))"
      by simp
  qed
  have k: "?k = (\<lambda>w1. ?body (emit (Makedirs ?releases_dir) w1))"
    using False by (intro ext) (simp add: setup_repository_dirs_def Let_def)
  show ?thesis
    unfolding k by (rule trace_blind_after_emit [OF tb])
qed

lemma trace_blind_process_repository [simp]:
  "trace_blind (process_repository download_dir repo_url)"
  unfolding process_repository_def
proof (intro trace_blind_bind trace_blind_parse_github_url)
  fix x :: "string option \<times> string option"
  obtain ow rp where x: "x = (ow, rp)" by (cases x)
  show "trace_blind (case x of (owner_opt, repo_opt) \<Rightarrow> \<lambda>w1.
     if falsy owner_opt \<or> falsy repo_opt then (Inr (), w1)
     else
       (let owner = the owner_opt; repo = the repo_opt;
            ((repo_dir, releases_dir), w2) = setup_repository_dirs download_dir owner repo w1;
            api_url = get_github_api_url owner repo;
            version_file_release = path_join repo_dir ''version_info_release.txt'';
            version_file_master = path_join repo_dir ''version_info_master.txt'';
            schedule_time = ''10:00''
        in bind_io
             (if \<not> path_exists version_file_master w2 \<or> \<not> path_exists version_file_release w2
              then initial_download_multi owner repo api_url repo_dir releases_dir
              else (\<lambda>w. (Inr (), w)))
             (\<lambda>_ w3. logging (Checks_scheduled_for schedule_time repo)
                 (emit (Schedule schedule_time
                    (Daily_check_for owner repo api_url repo_dir releases_dir)) w3)) w2))"
    unfolding x prod.case by (rule trace_blind_setup_and_schedule)
qed

lemma trace_blind_process_all [simp]: "trace_blind (process_all download_dir urls)"
proof (induction urls)
  case Nil
  show ?case by (simp add: trace_blind_def)
next
  case (Cons u urls)
  have "process_all download_dir (u # urls) =
          bind_io (process_repository download_dir u) (\<lambda>_. process_all download_dir urls)"
    by (rule ext) simp
  then show ?case
    by (simp only:) (intro trace_blind_bind trace_blind_process_repository Cons.IH)
qed









end
